theory Spec2Isabelle
  imports Complex_Main "HOL-Library.Word"
begin

unbundle bit_operations_syntax

section \<open>Numbers\<close>

text \<open>
  The TypeScript sources compute on \<open>number\<close>. The scores, distances and ratios are
  modelled as \<^typ>\<open>real\<close>, the counters as \<^typ>\<open>nat\<close> and the millisecond clock
  readings of \<open>Date.now()\<close> as \<^typ>\<open>int\<close>. Rounding error of the binary
  representation is outside the model, except in \<open>updateSkillEstimate\<close>: what is
  proved of its result depends on the last bit, so its arithmetic is that of
  binary64, each operation rounded (section Binary64 arithmetic). Where the source
  divides by a value that can be zero, the model spells out what the comparison on
  the quotient yields, since HOL's \<open>x / 0 = 0\<close> is not what the program computes.

  \<open>Math.round\<close> rounds to the nearest integer, a tie going up.
\<close>

definition js_round :: "real \<Rightarrow> real" where
  "js_round x = of_int \<lfloor>x + 1 / 2\<rfloor>"

section \<open>Binary64 arithmetic\<close>

text \<open>
  A finite double is a real number \<open>m * 2 ^ k\<close> with an integer \<open>m\<close> of at most 53
  bits and \<open>k\<close> at least \<open>-1074\<close>. The binade of \<open>x\<close> is its binary exponent, not
  below \<open>-1022\<close> (the subnormal numbers share the exponent of the smallest normal
  ones), and the quantum of \<open>x\<close> is the distance of neighbouring doubles in that
  binade, \<open>2 ^ (binade - 52)\<close>. \<open>rnd x\<close> is the multiple of the quantum nearest to
  \<open>x\<close>, a tie going to the even multiple: round to nearest, ties to even, the
  rounding of every arithmetic operation of the program and of its decimal
  literals. A result of magnitude \<open>2 ^ 1024\<close> or more, which the machine turns into
  \<open>Infinity\<close>, and \<open>NaN\<close> are outside the model.
\<close>

definition roundHalfEven :: "real \<Rightarrow> int" where
  "roundHalfEven y =
     (let f = \<lfloor>y\<rfloor>; d = y - of_int f
      in if d < 1 / 2 then f else if d > 1 / 2 then f + 1 else if even f then f else f + 1)"

definition binade :: "real \<Rightarrow> int" where
  "binade x = max \<lfloor>log 2 \<bar>x\<bar>\<rfloor> (- 1022)"

definition quantum :: "real \<Rightarrow> real" where
  "quantum x = 2 powi (binade x - 52)"

definition rnd :: "real \<Rightarrow> real" where
  "rnd x = (if x = 0 then 0 else quantum x * of_int (roundHalfEven (x / quantum x)))"

definition isDouble :: "real \<Rightarrow> bool" where
  "isDouble x \<longleftrightarrow> rnd x = x"

text \<open>The four operations on doubles: the exact result, rounded.\<close>

definition fadd :: "real \<Rightarrow> real \<Rightarrow> real" where
  "fadd x y = rnd (x + y)"

definition fsub :: "real \<Rightarrow> real \<Rightarrow> real" where
  "fsub x y = rnd (x - y)"

definition fmul :: "real \<Rightarrow> real \<Rightarrow> real" where
  "fmul x y = rnd (x * y)"

definition fdiv :: "real \<Rightarrow> real \<Rightarrow> real" where
  "fdiv x y = rnd (x / y)"

section \<open>Strings\<close>

text \<open>
  A JavaScript string is a sequence of code units; the model has the code units
  below 256 (\<^typ>\<open>char\<close>). \<open>Number.prototype.toString(radix)\<close> of a natural number
  writes its digits, most significant first, with \<open>a\<close> to \<open>z\<close> for the digits from
  ten on.
\<close>

definition digitChar :: "nat \<Rightarrow> char" where
  "digitChar d = (if d < 10 then char_of (48 + d) else char_of (87 + d))"

function toStringRadix :: "nat \<Rightarrow> nat \<Rightarrow> string" where
  "toStringRadix r n =
     (if n < r \<or> r < 2 then [digitChar n]
      else toStringRadix r (n div r) @ [digitChar (n mod r)])"
  by pat_completeness auto
termination
  by (relation "measure (\<lambda>(r, n). n)") auto

declare toStringRadix.simps [simp del]

text \<open>\<open>String(v)\<close> of an answer that is a string or a whole number.\<close>

datatype Answer = AnswerStr string | AnswerNum int

fun jsString :: "Answer \<Rightarrow> string" where
  "jsString (AnswerStr s) = s"
| "jsString (AnswerNum i) =
     (if i < 0 then CHR ''-'' # toStringRadix 10 (nat (- i)) else toStringRadix 10 (nat i))"

text \<open>
  \<open>toLowerCase\<close> and \<open>toUpperCase\<close> on the code units below 256 that have their
  counterpart below 256: the letters \<open>A\<close> to \<open>Z\<close> and the accented capitals
  \<open>0xC0\<close> to \<open>0xDE\<close> without the multiplication sign \<open>0xD7\<close> are 32 below their
  small letters. The upper-casing is only applied to digit strings of radix 36.
\<close>

definition lowerChar :: "char \<Rightarrow> char" where
  "lowerChar c =
     (let n = (of_char c :: nat)
      in if (65 \<le> n \<and> n \<le> 90) \<or> (192 \<le> n \<and> n \<le> 222 \<and> n \<noteq> 215)
         then char_of (n + 32) else c)"

definition toLowerCase :: "string \<Rightarrow> string" where
  "toLowerCase s = map lowerChar s"

definition upperChar :: "char \<Rightarrow> char" where
  "upperChar c =
     (let n = (of_char c :: nat)
      in if 97 \<le> n \<and> n \<le> 122 then char_of (n - 32) else c)"

definition toUpperCase :: "string \<Rightarrow> string" where
  "toUpperCase s = map upperChar s"

section \<open>Adaptive algorithm (lib/adaptiveAlgorithm.ts)\<close>

record SkillEstimate =
  workingMemory :: real
  attention :: real
  processingSpeed :: real
  executiveFunction :: real
  mathFluency :: real
  confidence :: real

record RecentAnswer =
  correct :: bool
  timeSpent :: real

record PerformanceMetrics =
  correctAnswers :: real
  totalAnswers :: real
  averageResponseTime :: real
  pmAttentionScore :: real
  recentPerformance :: "RecentAnswer list"

text \<open>
  The local constants \<open>accuracy\<close>, \<open>speedFactor\<close> and \<open>performanceScore\<close> of
  \<open>updateSkillEstimate\<close>, as functions of the metrics, in the arithmetic of doubles:
  \<open>0.6\<close>, \<open>0.4\<close>, \<open>0.3\<close> and \<open>0.1\<close> are the doubles nearest to these decimals, and
  \<open>Math.max\<close> and \<open>Math.min\<close> do not round.
\<close>

definition accuracy :: "PerformanceMetrics \<Rightarrow> real" where
  "accuracy metrics = fdiv (correctAnswers metrics) (max 1 (totalAnswers metrics))"

definition speedFactor :: "PerformanceMetrics \<Rightarrow> real" where
  "speedFactor metrics =
     max 0 (min 1 (fsub 1 (fdiv (averageResponseTime metrics) 10000)))"

definition performanceScore :: "PerformanceMetrics \<Rightarrow> real" where
  "performanceScore metrics =
     fmul (fadd (fmul (accuracy metrics) (rnd 0.6)) (fmul (speedFactor metrics) (rnd 0.4))) 100"

definition alpha :: real where
  "alpha = rnd 0.3"

definition updateSkillEstimate :: "SkillEstimate \<Rightarrow> PerformanceMetrics \<Rightarrow> SkillEstimate" where
  "updateSkillEstimate currentEstimate metrics =
     (let newMathFluency =
            fadd (fmul (mathFluency currentEstimate) (fsub 1 alpha))
                 (fmul (performanceScore metrics) alpha);
          newConfidence = min 1 (fadd (confidence currentEstimate) (rnd 0.1))
      in currentEstimate\<lparr>mathFluency := newMathFluency, confidence := newConfidence\<rparr>)"

text \<open>
  The rounding of the three operations of the moving average and of its two
  weights moves the result by at most this much from \<open>0.7 * old + 0.3 * score\<close>.
\<close>

definition roundingTolerance :: "real \<Rightarrow> real \<Rightarrow> real" where
  "roundingTolerance old score = 2 powi (- 51) * max \<bar>old\<bar> \<bar>score\<bar> + 2 powi (- 1073)"









text \<open>The metrics of a question round in which nothing was answered.\<close>

definition zeroSignal :: "PerformanceMetrics \<Rightarrow> bool" where
  "zeroSignal metrics \<longleftrightarrow> correctAnswers metrics = 0 \<and> totalAnswers metrics = 0"

text \<open>
  Scenarios: an estimate at \<open>mathFluency\<close> 96 with a confidence of 5, and a round
  with the one answer correct after 1000 ms, whose performance score is 96; an
  estimate at 50 with confidence 0.5, and a round without answers and with an
  average response time of 0; an estimate at 24 with confidence 1, and a round
  without answers and with an average response time of 4000 ms, whose performance
  score is 24.
\<close>

definition estimate96 :: SkillEstimate where
  "estimate96 = \<lparr>workingMemory = 80, attention = 70, processingSpeed = 60,
     executiveFunction = 75, mathFluency = 96, confidence = 5\<rparr>"

definition roundOneCorrect :: PerformanceMetrics where
  "roundOneCorrect = \<lparr>correctAnswers = 1, totalAnswers = 1, averageResponseTime = 1000,
     pmAttentionScore = 90, recentPerformance = []\<rparr>"

definition estimate50 :: SkillEstimate where
  "estimate50 = \<lparr>workingMemory = 50, attention = 50, processingSpeed = 50,
     executiveFunction = 50, mathFluency = 50, confidence = 0.5\<rparr>"

definition roundNoAnswers :: PerformanceMetrics where
  "roundNoAnswers = \<lparr>correctAnswers = 0, totalAnswers = 0, averageResponseTime = 0,
     pmAttentionScore = 0, recentPerformance = []\<rparr>"

definition estimate24 :: SkillEstimate where
  "estimate24 = \<lparr>workingMemory = 50, attention = 50, processingSpeed = 50,
     executiveFunction = 50, mathFluency = 24, confidence = 1\<rparr>"

definition roundNoAnswersSlow :: PerformanceMetrics where
  "roundNoAnswersSlow = \<lparr>correctAnswers = 0, totalAnswers = 0, averageResponseTime = 4000,
     pmAttentionScore = 0, recentPerformance = []\<rparr>"

section \<open>Attention check system (lib/assistiveFeatures.ts)\<close>

datatype CheckType = Simple | CatchQuestion | Consistency

record AttentionCheckResult =
  passed :: bool
  responseTime :: real
  checkTimestamp :: int
  checkType :: CheckType

record SessionQualityMetrics =
  attentionChecksPassed :: nat
  attentionChecksFailed :: nat
  sqAttentionScore :: real
  isValidSession :: bool
  qualityFlags :: "string list"

record AttentionCheckSystem =
  checks :: "AttentionCheckResult list"
  responsePatterns :: "real list"
  interactionEvents :: "int list"

definition MIN_ATTENTION_CHECKS_PASSED :: nat where
  "MIN_ATTENTION_CHECKS_PASSED = 2"

definition MIN_INTERACTION_EVENTS :: nat where
  "MIN_INTERACTION_EVENTS = 5"

definition newAttentionCheckSystem :: AttentionCheckSystem where
  "newAttentionCheckSystem = \<lparr>checks = [], responsePatterns = [], interactionEvents = []\<rparr>"

text \<open>
  \<open>recordCheck\<close> returns the result and appends it to the log; \<open>now\<close> is the reading
  of \<open>Date.now()\<close>.
\<close>

definition recordCheck ::
  "AttentionCheckSystem \<Rightarrow> Answer \<Rightarrow> Answer \<Rightarrow> real \<Rightarrow> CheckType \<Rightarrow> int
     \<Rightarrow> AttentionCheckResult \<times> AttentionCheckSystem" where
  "recordCheck s userAnswer correctAnswer rt ct now =
     (let result = \<lparr>passed = (toLowerCase (jsString userAnswer)
                                = toLowerCase (jsString correctAnswer)),
                     responseTime = rt, checkTimestamp = now, checkType = ct\<rparr>
      in (result, s\<lparr>checks := checks s @ [result]\<rparr>))"


definition recordInteraction :: "AttentionCheckSystem \<Rightarrow> int \<Rightarrow> AttentionCheckSystem" where
  "recordInteraction s now =
     (let pushed = interactionEvents s @ [now]
      in s\<lparr>interactionEvents := (if length pushed > 50 then tl pushed else pushed)\<rparr>)"

text \<open>
  The mean and the variance are computed by \<open>reduce\<close> from 0, a left fold. The
  coefficient of variation is a quotient by the mean; for a mean of 0 the program
  gets \<open>NaN\<close> or \<open>Infinity\<close> (the square root is not negative), and \<open>< 0.1\<close> is false
  for both.
\<close>

definition rtMean :: "real list \<Rightarrow> real" where
  "rtMean rp = foldl (\<lambda>a b. a + b) 0 rp / real (length rp)"

definition rtVariance :: "real list \<Rightarrow> real" where
  "rtVariance rp = foldl (\<lambda>sum rt. sum + (rt - rtMean rp) ^ 2) 0 rp / real (length rp)"

definition detectSuspiciousPatterns :: "AttentionCheckSystem \<Rightarrow> bool" where
  "detectSuspiciousPatterns s =
     (let rp = responsePatterns s
      in if length rp < 5 then False
         else rtMean rp \<noteq> 0 \<and> sqrt (rtVariance rp) / rtMean rp < 0.1)"

definition detectRapidClicking :: "AttentionCheckSystem \<Rightarrow> bool" where
  "detectRapidClicking s =
     (let ev = interactionEvents s
      in if length ev < 3 then False
         else (let recentEvents = drop (length ev - 3) ev;
                   timeSpan = recentEvents ! (length recentEvents - 1) - recentEvents ! 0
               in timeSpan < 500))"

definition detectAnomalousSpeed :: "AttentionCheckSystem \<Rightarrow> bool" where
  "detectAnomalousSpeed s =
     (let rp = responsePatterns s
      in if length rp < 3 then False
         else (let avgResponseTime = rtMean rp
               in avgResponseTime < 300 \<or> avgResponseTime > 30000))"

text \<open>
  \<open>sessionFlags\<close> is the list \<open>qualityFlags\<close> that \<open>evaluateSessionQuality\<close> builds,
  one \<open>push\<close> after the other.
\<close>

definition criticalFlags :: "string list" where
  "criticalFlags = [''FAILED_ATTENTION_CHECKS'', ''SUSPICIOUS_PATTERN'']"

definition sessionFlags :: "AttentionCheckSystem \<Rightarrow> string list" where
  "sessionFlags s =
     (let passedN = length (filter passed (checks s));
          total = length (checks s)
      in (if total > 0 \<and> passedN < MIN_ATTENTION_CHECKS_PASSED
          then [''FAILED_ATTENTION_CHECKS''] else [])
       @ (if detectSuspiciousPatterns s then [''SUSPICIOUS_PATTERN''] else [])
       @ (if detectRapidClicking s then [''RAPID_CLICKING''] else [])
       @ (if detectAnomalousSpeed s then [''ANOMALOUS_SPEED''] else [])
       @ (if length (interactionEvents s) < MIN_INTERACTION_EVENTS
          then [''LOW_INTERACTION''] else []))"

definition evaluateSessionQuality :: "AttentionCheckSystem \<Rightarrow> SessionQualityMetrics" where
  "evaluateSessionQuality s =
     (let passedN = length (filter passed (checks s));
          failedN = length (filter (\<lambda>c. \<not> passed c) (checks s));
          total = length (checks s);
          flags = sessionFlags s;
          baseScore = (if total > 0 then real passedN / real total * 100 else 0);
          penaltyPerFlag = 10;
          score = max 0 (js_round (baseScore - real (length flags) * penaltyPerFlag));
          hasCriticalFlag = list_ex (\<lambda>flag. List.member criticalFlags flag) flags
      in \<lparr>attentionChecksPassed = passedN,
          attentionChecksFailed = failedN,
          sqAttentionScore = score,
          isValidSession = (score \<ge> 60 \<and> \<not> hasCriticalFlag),
          qualityFlags = flags\<rparr>)"





text \<open>
  The scenario of three attention checks on a new system: the first answered
  correctly up to letter case, the other two answered wrongly.
\<close>

definition threeChecksScenario :: AttentionCheckSystem where
  "threeChecksScenario =
     snd (recordCheck (snd (recordCheck (snd (recordCheck newAttentionCheckSystem
       (AnswerStr ''blue'') (AnswerStr ''Blue'') 1500 Simple 1000))
       (AnswerNum 4) (AnswerNum 5) 2100 Simple 2000))
       (AnswerStr ''Continue'') (AnswerStr ''I am paying attention'') 900 CatchQuestion 3000)"

section \<open>Pseudonymous identifiers (lib/researchDataPipeline.ts)\<close>

record PseudonymousID =
  pUserId :: string
  pseudoId :: string
  salt :: string
  createdAt :: int

text \<open>
  Of the collector only the pseudonym map is modelled; the session records, the
  events and the survey responses are not read by the functions below.
\<close>

record ResearchDataCollector =
  pseudonymMap :: "string \<rightharpoonup> PseudonymousID"

definition newResearchDataCollector :: ResearchDataCollector where
  "newResearchDataCollector = \<lparr>pseudonymMap = Map.empty\<rparr>"

text \<open>
  One round of the loop of \<open>hashUserId\<close>: \<open>hash = (hash << 5) - hash + char\<close>, then
  \<open>hash = hash & hash\<close>, which brings the value back to a signed 32-bit integer. On
  \<^typ>\<open>32 word\<close> the arithmetic wraps in the same way.
\<close>

definition hashStep :: "32 word \<Rightarrow> char \<Rightarrow> 32 word" where
  "hashStep hash c = push_bit 5 hash - hash + of_nat (of_char c)"

definition hashCode :: "string \<Rightarrow> 32 word" where
  "hashCode combined = foldl hashStep 0 combined"

definition absHash :: "string \<Rightarrow> nat" where
  "absHash combined = nat \<bar>sint (hashCode combined)\<bar>"

text \<open>The upper-case digit of radix 36, and the upper-case digit string of a number.\<close>

definition upperDigit :: "nat \<Rightarrow> char" where
  "upperDigit d = upperChar (digitChar d)"

definition upper36 :: "nat \<Rightarrow> string" where
  "upper36 n = toUpperCase (toStringRadix 36 n)"

definition hashUserId :: "string \<Rightarrow> string \<Rightarrow> string" where
  "hashUserId userId slt =
     ''ANON-'' @ toUpperCase (toStringRadix 36 (absHash (userId @ slt)))"

text \<open>
  \<open>generatePseudonymousId\<close> returns the pseudonym and the collector after the call.
  \<open>slt\<close> is the string that \<open>generateSalt\<close> draws from \<open>Math.random\<close> and \<open>now\<close>
  the reading of \<open>Date.now()\<close>; both are used only when the user has no entry yet.
\<close>

definition generatePseudonymousId ::
  "ResearchDataCollector \<Rightarrow> string \<Rightarrow> string \<Rightarrow> int \<Rightarrow> string \<times> ResearchDataCollector" where
  "generatePseudonymousId c userId slt now =
     (case pseudonymMap c userId of
        Some entry \<Rightarrow> (pseudoId entry, c)
      | None \<Rightarrow>
          (let pid = hashUserId userId slt
           in (pid, c\<lparr>pseudonymMap := (pseudonymMap c)(userId \<mapsto>
                 \<lparr>pUserId = userId, pseudoId = pid, salt = slt, createdAt = now\<rparr>)\<rparr>)))"

section \<open>Engagement tracker (lib/engagementTracker.ts)\<close>

text \<open>
  Field names that several interfaces of the sources share carry a prefix here: \<open>m\<close>
  for the metrics, \<open>a\<close>, \<open>as\<close> and \<open>am\<close> for the state, the snapshots and the
  metrics of the advanced tracker.
\<close>

record EngagementSnapshot =
  timestamp :: int
  snapIsFocused :: bool
  mouseX :: real
  mouseY :: real
  hasInteraction :: bool

record EngagementMetrics =
  focusTime :: int
  activeTime :: int
  mInteractionCount :: nat
  mouseMovement :: real
  attentionScore :: real
  engagementScore :: real

record EngagementTracker =
  startTime :: int
  lastFocusTime :: int
  lastMousePos :: "real \<times> real"
  totalMouseDistance :: real
  interactionCount :: nat
  isFocused :: bool
  focusStartTime :: int
  totalFocusTime :: int
  snapshots :: "EngagementSnapshot list"
  lastSnapshotTime :: int

definition SNAPSHOT_INTERVAL :: int where
  "SNAPSHOT_INTERVAL = 2000"

definition MOUSE_THRESHOLD :: real where
  "MOUSE_THRESHOLD = 5"

text \<open>
  The field initialisers read \<open>Date.now()\<close> three times, for \<open>startTime\<close>,
  \<open>lastFocusTime\<close> and \<open>focusStartTime\<close>, in this order; \<open>reset\<close> does the same.
\<close>

definition newEngagementTracker :: "int \<Rightarrow> int \<Rightarrow> int \<Rightarrow> EngagementTracker" where
  "newEngagementTracker t1 t2 t3 =
     \<lparr>startTime = t1, lastFocusTime = t2, lastMousePos = (0, 0), totalMouseDistance = 0,
      interactionCount = 0, isFocused = True, focusStartTime = t3, totalFocusTime = 0,
      snapshots = [], lastSnapshotTime = 0\<rparr>"

definition handleFocus :: "EngagementTracker \<Rightarrow> int \<Rightarrow> EngagementTracker" where
  "handleFocus s now =
     (if \<not> isFocused s then s\<lparr>isFocused := True, focusStartTime := now\<rparr> else s)"

definition handleBlur :: "EngagementTracker \<Rightarrow> int \<Rightarrow> EngagementTracker" where
  "handleBlur s now =
     (if isFocused s
      then s\<lparr>isFocused := False, totalFocusTime := totalFocusTime s + (now - focusStartTime s)\<rparr>
      else s)"

definition mouseDistance :: "real \<times> real \<Rightarrow> real \<Rightarrow> real \<Rightarrow> real" where
  "mouseDistance p x y = sqrt ((x - fst p) ^ 2 + (y - snd p) ^ 2)"

definition newSnapshot :: "EngagementTracker \<Rightarrow> real \<Rightarrow> real \<Rightarrow> int \<Rightarrow> EngagementSnapshot" where
  "newSnapshot s x y now =
     \<lparr>timestamp = now, snapIsFocused = isFocused s, mouseX = x, mouseY = y,
      hasInteraction = False\<rparr>"

text \<open>The first half of \<open>trackMouse\<close>: a move beyond the threshold is accumulated.\<close>

definition moveMouse :: "EngagementTracker \<Rightarrow> real \<Rightarrow> real \<Rightarrow> EngagementTracker" where
  "moveMouse s x y =
     (let distance = mouseDistance (lastMousePos s) x y
      in if distance > MOUSE_THRESHOLD
         then s\<lparr>totalMouseDistance := totalMouseDistance s + distance,
                lastMousePos := (x, y)\<rparr>
         else s)"

definition trackMouse :: "EngagementTracker \<Rightarrow> real \<Rightarrow> real \<Rightarrow> int \<Rightarrow> EngagementTracker" where
  "trackMouse s x y now =
     (let s1 = moveMouse s x y
      in if now - lastSnapshotTime s1 \<ge> SNAPSHOT_INTERVAL
         then (let pushed = snapshots s1 @ [newSnapshot s1 x y now]
               in s1\<lparr>snapshots := (if length pushed > 30 then tl pushed else pushed),
                      lastSnapshotTime := now\<rparr>)
         else s1)"

text \<open>
  Marking the last snapshot: \<open>snapshots[length - 1].hasInteraction = true\<close>, done
  only for a buffer that is not empty.
\<close>

definition markLast :: "EngagementSnapshot list \<Rightarrow> EngagementSnapshot list" where
  "markLast snaps =
     (if length snaps > 0
      then snaps[length snaps - 1 := (snaps ! (length snaps - 1))\<lparr>hasInteraction := True\<rparr>]
      else snaps)"

definition trackInteraction :: "EngagementTracker \<Rightarrow> EngagementTracker" where
  "trackInteraction s =
     s\<lparr>interactionCount := interactionCount s + 1, snapshots := markLast (snapshots s)\<rparr>"

text \<open>
  The local values of \<open>getMetrics\<close>: the focus time up to \<open>now\<close>, the attention
  score before rounding, the interaction rate and the mouse activity.
\<close>

definition currentFocusTime :: "EngagementTracker \<Rightarrow> int \<Rightarrow> int" where
  "currentFocusTime s now =
     (if isFocused s then totalFocusTime s + (now - focusStartTime s) else totalFocusTime s)"

definition focusScore :: "int \<Rightarrow> int \<Rightarrow> real" where
  "focusScore focused totalTime =
     (let focusRatio =
            (if totalTime > 0 then real_of_int focused / real_of_int totalTime else 0)
      in min 100 (focusRatio * 100))"

definition interactionRate :: "nat \<Rightarrow> int \<Rightarrow> real" where
  "interactionRate n totalTime =
     (if totalTime > 0 then (real n / (real_of_int totalTime / 1000)) * 10 else 0)"

definition mouseActivity :: "real \<Rightarrow> real" where
  "mouseActivity totalDistance = min 100 ((totalDistance / 1000) * 10)"

definition getMetrics :: "EngagementTracker \<Rightarrow> int \<Rightarrow> EngagementMetrics" where
  "getMetrics s now =
     (let totalTime = now - startTime s;
          focused = currentFocusTime s now;
          att = focusScore focused totalTime;
          rate = interactionRate (interactionCount s) totalTime;
          eng = min 100 (att * 0.4 + min 100 (rate * 10) * 0.3
                  + mouseActivity (totalMouseDistance s) * 0.3)
      in \<lparr>focusTime = focused, activeTime = totalTime,
          mInteractionCount = interactionCount s,
          mouseMovement = totalMouseDistance s,
          attentionScore = js_round att, engagementScore = js_round eng\<rparr>)"

definition reset :: "EngagementTracker \<Rightarrow> int \<Rightarrow> int \<Rightarrow> int \<Rightarrow> EngagementTracker" where
  "reset s t1 t2 t3 = newEngagementTracker t1 t2 t3"

text \<open>
  The calls that reach a tracker, each with the readings of the clock it takes.
  \<open>trackInteraction\<close> reads the clock without using the reading.
\<close>

datatype TrackerEvent =
    TrackMouse real real int
  | TrackInteraction int
  | HandleFocus int
  | HandleBlur int
  | Reset int int int

fun step :: "EngagementTracker \<Rightarrow> TrackerEvent \<Rightarrow> EngagementTracker" where
  "step s (TrackMouse x y now) = trackMouse s x y now"
| "step s (TrackInteraction now) = trackInteraction s"
| "step s (HandleFocus now) = handleFocus s now"
| "step s (HandleBlur now) = handleBlur s now"
| "step s (Reset t1 t2 t3) = reset s t1 t2 t3"

fun readings :: "TrackerEvent \<Rightarrow> int list" where
  "readings (TrackMouse x y now) = [now]"
| "readings (TrackInteraction now) = [now]"
| "readings (HandleFocus now) = [now]"
| "readings (HandleBlur now) = [now]"
| "readings (Reset t1 t2 t3) = [t1, t2, t3]"

definition run :: "EngagementTracker \<Rightarrow> TrackerEvent list \<Rightarrow> EngagementTracker" where
  "run s evs = foldl step s evs"

text \<open>
  The clock does not go back: the readings of the constructor, of the calls and of
  the final \<open>getMetrics\<close>, in the order they are taken, do not decrease.
\<close>

definition clockOk :: "int list \<Rightarrow> TrackerEvent list \<Rightarrow> int \<Rightarrow> bool" where
  "clockOk start evs now = sorted (start @ concat (map readings evs) @ [now])"

text \<open>
  What the calls keep true of a tracker while the clock does not go back, \<open>t\<close> being
  the latest reading: the focus started no later than \<open>t\<close>, and neither the
  accumulated focus time nor the accumulated mouse distance is negative.
\<close>

definition trackerInv :: "int \<Rightarrow> EngagementTracker \<Rightarrow> bool" where
  "trackerInv t s \<longleftrightarrow>
     focusStartTime s \<le> t \<and> 0 \<le> totalFocusTime s \<and> 0 \<le> totalMouseDistance s"

text \<open>
  A scenario: \<open>n\<close> calls of \<open>trackMouse\<close> at the origin, 2000 ms apart, so that each
  of them takes a snapshot.
\<close>

definition spacedMoves :: "nat \<Rightarrow> TrackerEvent list" where
  "spacedMoves n = map (\<lambda>i. TrackMouse 0 0 (2000 * int i)) [1..<Suc n]"

section \<open>Eye tracker readings (the eye tracking module)\<close>

text \<open>
  The advanced tracker reads the eye tracker through \<open>getGazeData\<close>,
  \<open>getFixations\<close>, \<open>getScanpathData\<close> and \<open>getAttentionScore\<close>. The eye tracker's
  data at the time of a call is a parameter of the call; of a saccade only the
  velocity is read, and of the scanpath data the three numbers below.
\<close>

record EyeGazePoint =
  gazeX :: real
  gazeY :: real
  gazeTimestamp :: int
  gazeConfidence :: real

record Fixation =
  fixationX :: real
  fixationY :: real
  duration :: real
  fixationStart :: int
  fixationEnd :: int

record EyeTracker =
  gazeData :: "EyeGazePoint list"
  fixations :: "Fixation list"
  saccadeVelocities :: "real list"

record ScanpathData =
  velocityMap :: "real list"
  avgFixationDuration :: real
  gazeDispersion :: real

definition calculateGazeDispersion :: "EyeTracker \<Rightarrow> real" where
  "calculateGazeDispersion et =
     (let gd = gazeData et; n = real (length gd)
      in if length gd < 2 then 0
         else (let meanX = foldl (\<lambda>sum p. sum + gazeX p) 0 gd / n;
                   meanY = foldl (\<lambda>sum p. sum + gazeY p) 0 gd / n;
                   variance = foldl (\<lambda>sum p. sum + (gazeX p - meanX) ^ 2
                                        + (gazeY p - meanY) ^ 2) 0 gd / n
               in sqrt variance))"

definition getScanpathData :: "EyeTracker \<Rightarrow> ScanpathData" where
  "getScanpathData et =
     \<lparr>velocityMap = saccadeVelocities et,
      avgFixationDuration =
        (if length (fixations et) > 0
         then foldl (\<lambda>sum f. sum + duration f) 0 (fixations et) / real (length (fixations et))
         else 0),
      gazeDispersion = calculateGazeDispersion et\<rparr>"

definition averageVelocity :: "real list \<Rightarrow> real" where
  "averageVelocity vm =
     (if length vm > 0 then foldl (\<lambda>a b. a + b) 0 vm / real (length vm) else 0)"

definition eyeAttentionScore :: "EyeTracker \<Rightarrow> real" where
  "eyeAttentionScore et =
     (let sp = getScanpathData et;
          maxDispersion = 500;
          dispersionScore = max 0 (1 - gazeDispersion sp / maxDispersion) * 100;
          targetFixationDuration = 300;
          fixationScore = min 100 ((avgFixationDuration sp / targetFixationDuration) * 100);
          avgVelocity = averageVelocity (velocityMap sp);
          maxVelocity = 500;
          velocityScore = max 0 (1 - avgVelocity / maxVelocity) * 100;
          score = dispersionScore * 0.5 + fixationScore * 0.3 + velocityScore * 0.2
      in js_round (min 100 (max 0 score)))"

section \<open>Advanced engagement tracker (lib/advancedEngagementTracker.ts)\<close>

datatype EngagementLevel = High | Medium | Low | Critical

record AdvMetrics =
  amFocusTime :: int
  amActiveTime :: int
  amInteractionCount :: nat
  amMouseMovement :: real
  amEyeTrackingScore :: real
  amAvgFixationDuration :: real
  amGazeDispersion :: real
  amSaccadeVelocity :: real
  amAudioEngagementScore :: real
  amSpeechRate :: real
  amResponseLatency :: real
  amAttentionScore :: real
  amEngagementScore :: real
  amFrustrationLevel :: real
  amConfusionLevel :: real
  engagementLevel :: EngagementLevel

record AdvSnapshot =
  asTimestamp :: int
  asIsFocused :: bool
  asMouseX :: real
  asMouseY :: real
  asHasInteraction :: bool
  eyeGaze :: "EyeGazePoint option"
  fixationDuration :: real
  asAttentionScore :: real
  asEngagementScore :: real
  asFrustrationLevel :: real

record AdaptiveThresholds =
  minAttentionScore :: real
  criticalAttentionScore :: real
  minEngagementScore :: real
  criticalEngagementScore :: real
  maxFrustrationLevel :: real
  criticalFrustrationLevel :: real
  recommendedSessionLength :: real
  maxSessionLength :: real
  breakFrequency :: real

record PartialThresholds =
  pMinAttentionScore :: "real option"
  pCriticalAttentionScore :: "real option"
  pMinEngagementScore :: "real option"
  pCriticalEngagementScore :: "real option"
  pMaxFrustrationLevel :: "real option"
  pCriticalFrustrationLevel :: "real option"
  pRecommendedSessionLength :: "real option"
  pMaxSessionLength :: "real option"
  pBreakFrequency :: "real option"

text \<open>
  \<open>eyeTrackerPresent\<close> says that the field \<open>eyeTracker\<close> holds the eye tracker
  rather than \<open>null\<close>.
\<close>

record AdvTracker =
  aStartTime :: int
  aLastFocusTime :: int
  aLastMousePos :: "real \<times> real"
  aTotalMouseDistance :: real
  aInteractionCount :: nat
  aIsFocused :: bool
  aFocusStartTime :: int
  aTotalFocusTime :: int
  aSnapshots :: "AdvSnapshot list"
  aLastSnapshotTime :: int
  eyeTrackerPresent :: bool
  eyeTrackingEnabled :: bool
  audioEngagementScore :: real
  speechRate :: real
  responseLatency :: real
  frustrationLevel :: real
  confusionLevel :: real
  thresholds :: AdaptiveThresholds

definition defaultThresholds :: AdaptiveThresholds where
  "defaultThresholds =
     \<lparr>minAttentionScore = 50, criticalAttentionScore = 30, minEngagementScore = 55,
      criticalEngagementScore = 35, maxFrustrationLevel = 60, criticalFrustrationLevel = 80,
      recommendedSessionLength = 25, maxSessionLength = 45, breakFrequency = 20\<rparr>"

definition newAdvTracker :: "int \<Rightarrow> int \<Rightarrow> int \<Rightarrow> AdvTracker" where
  "newAdvTracker t1 t2 t3 =
     \<lparr>aStartTime = t1, aLastFocusTime = t2, aLastMousePos = (0, 0), aTotalMouseDistance = 0,
      aInteractionCount = 0, aIsFocused = True, aFocusStartTime = t3, aTotalFocusTime = 0,
      aSnapshots = [], aLastSnapshotTime = 0,
      eyeTrackerPresent = False, eyeTrackingEnabled = False,
      audioEngagementScore = 0, speechRate = 0, responseLatency = 0,
      frustrationLevel = 0, confusionLevel = 0, thresholds = defaultThresholds\<rparr>"

definition override :: "real \<Rightarrow> real option \<Rightarrow> real" where
  "override old new = (case new of None \<Rightarrow> old | Some v \<Rightarrow> v)"

definition setThresholds :: "AdvTracker \<Rightarrow> PartialThresholds \<Rightarrow> AdvTracker" where
  "setThresholds s p =
     (let th = thresholds s
      in s\<lparr>thresholds :=
           \<lparr>minAttentionScore = override (minAttentionScore th) (pMinAttentionScore p),
            criticalAttentionScore =
              override (criticalAttentionScore th) (pCriticalAttentionScore p),
            minEngagementScore = override (minEngagementScore th) (pMinEngagementScore p),
            criticalEngagementScore =
              override (criticalEngagementScore th) (pCriticalEngagementScore p),
            maxFrustrationLevel = override (maxFrustrationLevel th) (pMaxFrustrationLevel p),
            criticalFrustrationLevel =
              override (criticalFrustrationLevel th) (pCriticalFrustrationLevel p),
            recommendedSessionLength =
              override (recommendedSessionLength th) (pRecommendedSessionLength p),
            maxSessionLength = override (maxSessionLength th) (pMaxSessionLength p),
            breakFrequency = override (breakFrequency th) (pBreakFrequency p)\<rparr>\<rparr>)"

text \<open>
  \<open>enableEyeTracking\<close> stores the eye tracker and enables it when \<open>startTracking\<close>
  answers true (\<open>started\<close>); \<open>disableEyeTracking\<close> acts only when an eye tracker is
  stored.
\<close>

definition enableEyeTracking :: "AdvTracker \<Rightarrow> bool \<Rightarrow> AdvTracker" where
  "enableEyeTracking s started =
     (let s1 = s\<lparr>eyeTrackerPresent := True\<rparr>
      in if started then s1\<lparr>eyeTrackingEnabled := True\<rparr> else s1)"

definition disableEyeTracking :: "AdvTracker \<Rightarrow> AdvTracker" where
  "disableEyeTracking s =
     (if eyeTrackerPresent s then s\<lparr>eyeTrackingEnabled := False\<rparr> else s)"

definition aHandleFocus :: "AdvTracker \<Rightarrow> int \<Rightarrow> AdvTracker" where
  "aHandleFocus s now =
     (if \<not> aIsFocused s then s\<lparr>aIsFocused := True, aFocusStartTime := now\<rparr> else s)"

definition aHandleBlur :: "AdvTracker \<Rightarrow> int \<Rightarrow> AdvTracker" where
  "aHandleBlur s now =
     (if aIsFocused s
      then s\<lparr>aIsFocused := False,
             aTotalFocusTime := aTotalFocusTime s + (now - aFocusStartTime s)\<rparr>
      else s)"

definition updateAudioMetrics :: "AdvTracker \<Rightarrow> real \<Rightarrow> real \<Rightarrow> real \<Rightarrow> AdvTracker" where
  "updateAudioMetrics s engagement rate latency =
     s\<lparr>audioEngagementScore := engagement, speechRate := rate, responseLatency := latency\<rparr>"

definition updateEmotionalState :: "AdvTracker \<Rightarrow> real \<Rightarrow> real \<Rightarrow> AdvTracker" where
  "updateEmotionalState s frustration confusion =
     s\<lparr>frustrationLevel := frustration, confusionLevel := confusion\<rparr>"

definition aCurrentFocusTime :: "AdvTracker \<Rightarrow> int \<Rightarrow> int" where
  "aCurrentFocusTime s now =
     (if aIsFocused s then aTotalFocusTime s + (now - aFocusStartTime s)
      else aTotalFocusTime s)"

text \<open>
  The scores that \<open>getMetrics\<close> computes before it rounds them for the record it
  returns: the local constants \<open>eyeTrackingScore\<close>, \<open>attentionScore\<close> and
  \<open>engagementScore\<close>.
\<close>

definition eyeTrackingScore :: "AdvTracker \<Rightarrow> EyeTracker \<Rightarrow> real" where
  "eyeTrackingScore s et =
     (if eyeTrackingEnabled s \<and> eyeTrackerPresent s then eyeAttentionScore et else 0)"

definition computedAttentionScore :: "AdvTracker \<Rightarrow> EyeTracker \<Rightarrow> int \<Rightarrow> real" where
  "computedAttentionScore s et now =
     (let baseFocusScore = focusScore (aCurrentFocusTime s now) (now - aStartTime s)
      in if eyeTrackingEnabled s
         then baseFocusScore * 0.3 + eyeTrackingScore s et * 0.7
         else baseFocusScore)"

definition computedEngagementScore :: "AdvTracker \<Rightarrow> EyeTracker \<Rightarrow> int \<Rightarrow> real" where
  "computedEngagementScore s et now =
     (let rate = interactionRate (aInteractionCount s) (now - aStartTime s)
      in min 100 (computedAttentionScore s et now * 0.4
           + min 100 (rate * 10) * 0.2
           + mouseActivity (aTotalMouseDistance s) * 0.1
           + audioEngagementScore s * 0.2
           + (100 - frustrationLevel s) * 0.1))"

definition classify :: "AdaptiveThresholds \<Rightarrow> real \<Rightarrow> real \<Rightarrow> real \<Rightarrow> EngagementLevel" where
  "classify th att eng frustration =
     (if att < criticalAttentionScore th \<or> eng < criticalEngagementScore th
         \<or> frustration > criticalFrustrationLevel th
      then Critical
      else if att < minAttentionScore th \<or> eng < minEngagementScore th
         \<or> frustration > maxFrustrationLevel th
      then Low
      else if eng \<ge> 70 \<and> att \<ge> 70 then High
      else Medium)"

definition aGetMetrics :: "AdvTracker \<Rightarrow> EyeTracker \<Rightarrow> int \<Rightarrow> AdvMetrics" where
  "aGetMetrics s et now =
     (let useEye = eyeTrackingEnabled s \<and> eyeTrackerPresent s;
          sp = getScanpathData et;
          att = computedAttentionScore s et now;
          eng = computedEngagementScore s et now
      in \<lparr>amFocusTime = aCurrentFocusTime s now,
          amActiveTime = now - aStartTime s,
          amInteractionCount = aInteractionCount s,
          amMouseMovement = aTotalMouseDistance s,
          amEyeTrackingScore = eyeTrackingScore s et,
          amAvgFixationDuration = (if useEye then avgFixationDuration sp else 0),
          amGazeDispersion = (if useEye then gazeDispersion sp else 0),
          amSaccadeVelocity = (if useEye then averageVelocity (velocityMap sp) else 0),
          amAudioEngagementScore = audioEngagementScore s,
          amSpeechRate = speechRate s,
          amResponseLatency = responseLatency s,
          amAttentionScore = js_round att,
          amEngagementScore = js_round eng,
          amFrustrationLevel = js_round (frustrationLevel s),
          amConfusionLevel = js_round (confusionLevel s),
          engagementLevel = classify (thresholds s) att eng (frustrationLevel s)\<rparr>)"

definition lastOption :: "'a list \<Rightarrow> 'a option" where
  "lastOption xs = (if length xs > 0 then Some (xs ! (length xs - 1)) else None)"

text \<open>
  \<open>takeSnapshot\<close> reads the clock (\<open>now\<close>) and, when a snapshot is due, calls
  \<open>getMetrics\<close>, which reads it again (\<open>now2\<close>).
\<close>

definition aNewSnapshot ::
  "AdvTracker \<Rightarrow> EyeTracker \<Rightarrow> real \<Rightarrow> real \<Rightarrow> bool \<Rightarrow> int \<Rightarrow> int \<Rightarrow> AdvSnapshot" where
  "aNewSnapshot s et x y interaction now now2 =
     (let useEye = eyeTrackingEnabled s \<and> eyeTrackerPresent s;
          metrics = aGetMetrics s et now2
      in \<lparr>asTimestamp = now, asIsFocused = aIsFocused s, asMouseX = x, asMouseY = y,
          asHasInteraction = interaction,
          eyeGaze = (if useEye then lastOption (gazeData et) else None),
          fixationDuration =
            (if useEye then (case lastOption (fixations et) of
                               None \<Rightarrow> 0 | Some f \<Rightarrow> duration f)
             else 0),
          asAttentionScore = amAttentionScore metrics,
          asEngagementScore = amEngagementScore metrics,
          asFrustrationLevel = amFrustrationLevel metrics\<rparr>)"

definition takeSnapshot ::
  "AdvTracker \<Rightarrow> EyeTracker \<Rightarrow> real \<Rightarrow> real \<Rightarrow> bool \<Rightarrow> int \<Rightarrow> int \<Rightarrow> AdvTracker" where
  "takeSnapshot s et x y interaction now now2 =
     (if now - aLastSnapshotTime s < SNAPSHOT_INTERVAL then s
      else (let pushed = aSnapshots s @ [aNewSnapshot s et x y interaction now now2]
            in s\<lparr>aSnapshots := (if length pushed > 30 then tl pushed else pushed),
                 aLastSnapshotTime := now\<rparr>))"

definition aMoveMouse :: "AdvTracker \<Rightarrow> real \<Rightarrow> real \<Rightarrow> AdvTracker" where
  "aMoveMouse s x y =
     (let distance = mouseDistance (aLastMousePos s) x y
      in if distance > MOUSE_THRESHOLD
         then s\<lparr>aTotalMouseDistance := aTotalMouseDistance s + distance,
                aLastMousePos := (x, y)\<rparr>
         else s)"

definition aTrackMouse ::
  "AdvTracker \<Rightarrow> EyeTracker \<Rightarrow> real \<Rightarrow> real \<Rightarrow> int \<Rightarrow> int \<Rightarrow> AdvTracker" where
  "aTrackMouse s et x y now now2 = takeSnapshot (aMoveMouse s x y) et x y False now now2"

definition aMarkLast :: "AdvSnapshot list \<Rightarrow> AdvSnapshot list" where
  "aMarkLast snaps =
     (if length snaps > 0
      then snaps[length snaps - 1 := (snaps ! (length snaps - 1))\<lparr>asHasInteraction := True\<rparr>]
      else snaps)"

definition aTrackInteraction :: "AdvTracker \<Rightarrow> AdvTracker" where
  "aTrackInteraction s =
     s\<lparr>aInteractionCount := aInteractionCount s + 1, aSnapshots := aMarkLast (aSnapshots s)\<rparr>"

text \<open>\<open>reset\<close> keeps the eye tracker fields and the thresholds.\<close>

definition aReset :: "AdvTracker \<Rightarrow> int \<Rightarrow> int \<Rightarrow> int \<Rightarrow> AdvTracker" where
  "aReset s t1 t2 t3 =
     s\<lparr>aStartTime := t1, aLastFocusTime := t2, aLastMousePos := (0, 0),
       aTotalMouseDistance := 0, aInteractionCount := 0, aIsFocused := True,
       aFocusStartTime := t3, aTotalFocusTime := 0, aSnapshots := [],
       aLastSnapshotTime := 0, audioEngagementScore := 0, speechRate := 0,
       responseLatency := 0, frustrationLevel := 0, confusionLevel := 0\<rparr>"

datatype AdvEvent =
    ATrackMouse EyeTracker real real int int
  | ATrackInteraction
  | AHandleFocus int
  | AHandleBlur int
  | UpdateAudioMetrics real real real
  | UpdateEmotionalState real real
  | SetThresholds PartialThresholds
  | EnableEyeTracking bool
  | DisableEyeTracking
  | AReset int int int

fun aStep :: "AdvTracker \<Rightarrow> AdvEvent \<Rightarrow> AdvTracker" where
  "aStep s (ATrackMouse et x y now now2) = aTrackMouse s et x y now now2"
| "aStep s ATrackInteraction = aTrackInteraction s"
| "aStep s (AHandleFocus now) = aHandleFocus s now"
| "aStep s (AHandleBlur now) = aHandleBlur s now"
| "aStep s (UpdateAudioMetrics e r l) = updateAudioMetrics s e r l"
| "aStep s (UpdateEmotionalState f c) = updateEmotionalState s f c"
| "aStep s (SetThresholds p) = setThresholds s p"
| "aStep s (EnableEyeTracking started) = enableEyeTracking s started"
| "aStep s DisableEyeTracking = disableEyeTracking s"
| "aStep s (AReset t1 t2 t3) = aReset s t1 t2 t3"

fun aReadings :: "AdvEvent \<Rightarrow> int list" where
  "aReadings (ATrackMouse et x y now now2) = [now, now2]"
| "aReadings (AHandleFocus now) = [now]"
| "aReadings (AHandleBlur now) = [now]"
| "aReadings (AReset t1 t2 t3) = [t1, t2, t3]"
| "aReadings ev = []"

definition aRun :: "AdvTracker \<Rightarrow> AdvEvent list \<Rightarrow> AdvTracker" where
  "aRun s evs = foldl aStep s evs"

definition aClockOk :: "int list \<Rightarrow> AdvEvent list \<Rightarrow> int \<Rightarrow> bool" where
  "aClockOk start evs now = sorted (start @ concat (map aReadings evs) @ [now])"

definition aTrackerInv :: "int \<Rightarrow> AdvTracker \<Rightarrow> bool" where
  "aTrackerInv t s \<longleftrightarrow>
     aFocusStartTime s \<le> t \<and> 0 \<le> aTotalFocusTime s \<and> 0 \<le> aTotalMouseDistance s"

text \<open>An eye tracker that has recorded nothing.\<close>

definition idleEyeTracker :: EyeTracker where
  "idleEyeTracker = \<lparr>gazeData = [], fixations = [], saccadeVelocities = []\<rparr>"

definition aSpacedMoves :: "nat \<Rightarrow> AdvEvent list" where
  "aSpacedMoves n =
     map (\<lambda>i. ATrackMouse idleEyeTracker 0 0 (2000 * int i) (2000 * int i)) [1..<Suc n]"

section \<open>Properties of the binary64 rounding\<close>

lemma roundHalfEven_cases:
  "roundHalfEven y = \<lfloor>y\<rfloor> \<or> roundHalfEven y = \<lfloor>y\<rfloor> + 1"
  by (simp add: roundHalfEven_def Let_def)

lemma roundHalfEven_error: "\<bar>of_int (roundHalfEven y) - y\<bar> \<le> 1 / 2"
  unfolding roundHalfEven_def Let_def by (auto simp: abs_if) linarith+

lemma roundHalfEven_of_int [simp]: "roundHalfEven (of_int n) = n"
  by (simp add: roundHalfEven_def)

lemma roundHalfEven_numeral [simp]: "roundHalfEven (numeral n) = numeral n"
  using roundHalfEven_of_int [of "numeral n"] by simp

lemma roundHalfEven_zero [simp]: "roundHalfEven 0 = 0"
  using roundHalfEven_of_int [of 0] by simp

lemma roundHalfEven_mono: "y \<le> z \<Longrightarrow> roundHalfEven y \<le> roundHalfEven z"
proof -
  assume yz: "y \<le> z"
  then have fl: "\<lfloor>y\<rfloor> \<le> \<lfloor>z\<rfloor>" by (rule floor_mono)
  show ?thesis
  proof (cases "\<lfloor>y\<rfloor> = \<lfloor>z\<rfloor>")
    case True
    with yz show ?thesis
      by (auto simp add: roundHalfEven_def Let_def)
  next
    case False
    with fl have "\<lfloor>y\<rfloor> + 1 \<le> \<lfloor>z\<rfloor>" by simp
    moreover have "roundHalfEven y \<le> \<lfloor>y\<rfloor> + 1"
      using roundHalfEven_cases [of y] by auto
    moreover have "\<lfloor>z\<rfloor> \<le> roundHalfEven z"
      using roundHalfEven_cases [of z] by auto
    ultimately show ?thesis by linarith
  qed
qed

lemma roundHalfEven_minus: "roundHalfEven (- y) = - roundHalfEven y"
proof (cases "y = of_int \<lfloor>y\<rfloor>")
  case True
  then obtain n where "y = of_int n" ..
  then show ?thesis
    by (simp flip: of_int_minus)
next
  case False
  then have fl: "\<lfloor>- y\<rfloor> = - \<lfloor>y\<rfloor> - 1"
    by (simp add: floor_minus ceiling_altdef)
  from False have lt: "of_int \<lfloor>y\<rfloor> < y" 
    by (metis floor_correct less_eq_real_def)
  show ?thesis
    unfolding roundHalfEven_def Let_def fl
    using lt by (auto simp add: algebra_simps)
qed


lemma roundHalfEven_near: "\<bar>y - of_int n\<bar> < 1 / 2 \<Longrightarrow> roundHalfEven y = n"
proof -
  assume a: "\<bar>y - of_int n\<bar> < 1 / 2"
  have e: "\<bar>of_int (roundHalfEven y) - y\<bar> \<le> 1 / 2"
    by (rule roundHalfEven_error)
  from a e have "\<bar>(of_int (roundHalfEven y) :: real) - of_int n\<bar> < 1"
    by linarith
  then have "\<bar>roundHalfEven y - n\<bar> < 1"
    by (metis of_int_abs of_int_diff of_int_less_1_iff)
  then show ?thesis by simp
qed

lemma roundHalfEven_tie_even: "y = of_int n + 1 / 2 \<Longrightarrow> even n \<Longrightarrow> roundHalfEven y = n"
proof -
  assume y: "y = of_int n + 1 / 2" and ev: "even n"
  have "\<lfloor>y\<rfloor> = n" unfolding y by (rule floor_unique) simp_all
  with y ev show ?thesis by (simp add: roundHalfEven_def Let_def)
qed

lemma roundHalfEven_tie_odd: "y = of_int n + 1 / 2 \<Longrightarrow> odd n \<Longrightarrow> roundHalfEven y = n + 1"
proof -
  assume y: "y = of_int n + 1 / 2" and ev: "odd n"
  have "\<lfloor>y\<rfloor> = n" unfolding y by (rule floor_unique) simp_all
  with y ev show ?thesis by (simp add: roundHalfEven_def Let_def)
qed

lemma floor_log2_bounds:
  assumes "x \<noteq> 0"
  shows "2 powi \<lfloor>log 2 \<bar>x\<bar>\<rfloor> \<le> \<bar>x\<bar>" and "\<bar>x\<bar> < 2 powi (\<lfloor>log 2 \<bar>x\<bar>\<rfloor> + 1)"
proof -
  from assms have pos: "0 < \<bar>x\<bar>" by simp
  have "(2::real) powr of_int \<lfloor>log 2 \<bar>x\<bar>\<rfloor> \<le> \<bar>x\<bar>
      \<and> \<bar>x\<bar> < 2 powr (of_int \<lfloor>log 2 \<bar>x\<bar>\<rfloor> + 1)"
    using floor_log_eq_powr_iff [OF pos, of 2 "\<lfloor>log 2 \<bar>x\<bar>\<rfloor>"] by simp
  moreover have "(2::real) powr (of_int \<lfloor>log 2 \<bar>x\<bar>\<rfloor> + 1) = 2 powr of_int (\<lfloor>log 2 \<bar>x\<bar>\<rfloor> + 1)"
    by simp
  ultimately show "2 powi \<lfloor>log 2 \<bar>x\<bar>\<rfloor> \<le> \<bar>x\<bar>" and "\<bar>x\<bar> < 2 powi (\<lfloor>log 2 \<bar>x\<bar>\<rfloor> + 1)"
    by (simp_all only: powr_real_of_int' [of 2, simplified])
qed

lemma floor_log2_eq:
  assumes "2 powi k \<le> \<bar>x\<bar>" and "\<bar>x\<bar> < 2 powi (k + 1)"
  shows "\<lfloor>log 2 \<bar>x\<bar>\<rfloor> = k"
proof -
  have pos: "0 < \<bar>x\<bar>"
    using assms(1) by (meson less_le_trans zero_less_numeral zero_less_power_int)
  have "(2::real) powr of_int k \<le> \<bar>x\<bar>"
    using assms(1) by (simp add: powr_real_of_int' [of 2, simplified])
  moreover have "\<bar>x\<bar> < (2::real) powr of_int (k + 1)"
    using assms(2) by (simp only: powr_real_of_int' [of 2, simplified])
  then have "\<bar>x\<bar> < (2::real) powr (of_int k + 1)" by simp
  ultimately show ?thesis
    using floor_log_eq_powr_iff [OF pos, of 2 k] by simp
qed

lemma two_powi_less_D: "(2::real) powi a < 2 powi b \<Longrightarrow> a < b"
proof (rule ccontr)
  assume lt: "(2::real) powi a < 2 powi b" and "\<not> a < b"
  then have "b \<le> a" by simp
  then have "(2::real) powi b \<le> 2 powi a"
    by (rule power_int_increasing) simp
  with lt show False by simp
qed

lemma two_powi_le_D: "(2::real) powi a \<le> 2 powi b \<Longrightarrow> a \<le> b"
proof (rule ccontr)
  assume le: "(2::real) powi a \<le> 2 powi b" and "\<not> a \<le> b"
  then have "b < a" by simp
  then have "(2::real) powi b < 2 powi a"
    by (rule power_int_strict_increasing) simp
  with le show False by simp
qed

lemma binade_ge: "- 1022 \<le> binade x"
  by (simp add: binade_def)

lemma binade_upper: "x \<noteq> 0 \<Longrightarrow> \<bar>x\<bar> < 2 powi (binade x + 1)"
proof -
  assume x: "x \<noteq> 0"
  have "\<bar>x\<bar> < 2 powi (\<lfloor>log 2 \<bar>x\<bar>\<rfloor> + 1)"
    using x by (rule floor_log2_bounds)
  also have "\<dots> \<le> 2 powi (binade x + 1)"
    by (rule power_int_increasing) (simp_all add: binade_def)
  finally show ?thesis .
qed

lemma binade_lower: "2 powi (- 1022) \<le> \<bar>x\<bar> \<Longrightarrow> 2 powi (binade x) \<le> \<bar>x\<bar>"
proof -
  assume a: "2 powi (- 1022) \<le> \<bar>x\<bar>"
  then have x: "x \<noteq> 0"
    by (metis abs_zero not_le zero_less_numeral zero_less_power_int)
  have "(2::real) powi (- 1022) < 2 powi (\<lfloor>log 2 \<bar>x\<bar>\<rfloor> + 1)"
    using a floor_log2_bounds(2) [OF x] by linarith
  then have "- 1022 < \<lfloor>log 2 \<bar>x\<bar>\<rfloor> + 1"
    by (rule two_powi_less_D)
  then have "binade x = \<lfloor>log 2 \<bar>x\<bar>\<rfloor>"
    by (simp add: binade_def)
  then show ?thesis
    using floor_log2_bounds(1) [OF x] by simp
qed

lemma binade_eq:
  "- 1022 \<le> k \<Longrightarrow> 2 powi k \<le> \<bar>x\<bar> \<Longrightarrow> \<bar>x\<bar> < 2 powi (k + 1) \<Longrightarrow> binade x = k"
  by (simp add: binade_def floor_log2_eq)

lemma binade_subnormal: "x \<noteq> 0 \<Longrightarrow> \<bar>x\<bar> < 2 powi (- 1022) \<Longrightarrow> binade x = - 1022"
proof -
  assume x: "x \<noteq> 0" and a: "\<bar>x\<bar> < 2 powi (- 1022)"
  have "(2::real) powi \<lfloor>log 2 \<bar>x\<bar>\<rfloor> < 2 powi (- 1022)"
    using a floor_log2_bounds(1) [OF x] by linarith
  then have "\<lfloor>log 2 \<bar>x\<bar>\<rfloor> < - 1022"
    by (rule two_powi_less_D)
  then show ?thesis by (simp add: binade_def)
qed


lemma binade_minus [simp]: "binade (- x) = binade x"
  by (simp add: binade_def)

lemma quantum_minus [simp]: "quantum (- x) = quantum x"
  by (simp add: quantum_def)

lemma quantum_pos [simp]: "0 < quantum x"
  by (simp add: quantum_def)

lemma quantum_nonzero [simp]: "quantum x \<noteq> 0"
  by (simp add: quantum_def)

lemma rnd_zero [simp]: "rnd 0 = 0"
  by (simp add: rnd_def)

lemma rnd_minus: "rnd (- x) = - rnd x"
  by (simp add: rnd_def roundHalfEven_minus)

lemma rnd_error: "\<bar>rnd x - x\<bar> \<le> quantum x / 2"
proof (cases "x = 0")
  case True
  then show ?thesis by (simp add: less_imp_le)
next
  case False
  let ?q = "quantum x"
  let ?n = "roundHalfEven (x / ?q)"
  have "rnd x - x = ?q * (of_int ?n - x / ?q)"
    using False by (simp add: rnd_def algebra_simps)
  then have "\<bar>rnd x - x\<bar> = ?q * \<bar>of_int ?n - x / ?q\<bar>"
    by (simp add: abs_mult less_imp_le)
  also have "\<dots> \<le> ?q * (1 / 2)"
    using roundHalfEven_error [of "x / ?q"]
    by (intro mult_left_mono) (simp_all add: less_imp_le)
  finally show ?thesis by simp
qed

lemma quantum_bound: "x \<noteq> 0 \<Longrightarrow> quantum x \<le> 2 powi (- 52) * \<bar>x\<bar> + 2 powi (- 1074)"
proof (cases "2 powi (- 1022) \<le> \<bar>x\<bar>")
  case True
  then have "2 powi (binade x) \<le> \<bar>x\<bar>" by (rule binade_lower)
  then have "2 powi (- 52) * 2 powi (binade x) \<le> 2 powi (- 52) * \<bar>x\<bar>"
    by (intro mult_left_mono) simp_all
  moreover have "quantum x = 2 powi (- 52) * 2 powi (binade x)"
    by (simp add: quantum_def power_int_diff power_int_minus field_simps)
  ultimately have "quantum x \<le> 2 powi (- 52) * \<bar>x\<bar>"
    by simp
  then show ?thesis
    by (rule add_increasing2 [rotated]) simp
next
  case False
  assume "x \<noteq> 0"
  with False have "binade x = - 1022" by (intro binade_subnormal) simp_all
  then have "quantum x = 2 powi (- 1074)" by (simp add: quantum_def)
  then show ?thesis by simp
qed

lemma rnd_rel_error: "\<bar>rnd x - x\<bar> \<le> 2 powi (- 53) * \<bar>x\<bar> + 2 powi (- 1075)"
proof (cases "x = 0")
  case True
  then show ?thesis by simp
next
  case False
  have "\<bar>rnd x - x\<bar> \<le> quantum x / 2" by (rule rnd_error)
  also have "\<dots> \<le> (2 powi (- 52) * \<bar>x\<bar> + 2 powi (- 1074)) / 2"
    using quantum_bound [OF False] by simp
  also have "\<dots> = 2 powi (- 53) * \<bar>x\<bar> + 2 powi (- 1075)"
    by (simp add: power_int_minus field_simps)
  finally show ?thesis .
qed

lemma rnd_nonneg: "0 \<le> x \<Longrightarrow> 0 \<le> rnd x"
proof -
  assume "0 \<le> x"
  then have "0 \<le> x / quantum x" by (simp add: less_imp_le)
  then have "roundHalfEven 0 \<le> roundHalfEven (x / quantum x)"
    by (rule roundHalfEven_mono)
  then have "0 \<le> roundHalfEven (x / quantum x)"
    using roundHalfEven_of_int [of 0] by simp
  then show ?thesis
    by (simp add: rnd_def less_imp_le)
qed

lemma rnd_upper_binade: "0 < x \<Longrightarrow> rnd x \<le> 2 powi (binade x + 1)"
proof -
  assume x: "0 < x"
  let ?q = "quantum x"
  have "x < 2 powi (binade x + 1)"
    using binade_upper [of x] x by simp
  also have "\<dots> = ?q * 2 ^ 53"
    by (simp add: quantum_def power_int_diff power_int_add field_simps)
  finally have "x / ?q \<le> 2 ^ 53"
    by (simp add: field_simps)
  then have "roundHalfEven (x / ?q) \<le> roundHalfEven (of_int (2 ^ 53))"
    by (intro roundHalfEven_mono) simp
  then have "roundHalfEven (x / ?q) \<le> 2 ^ 53" by simp
  then have "(of_int (roundHalfEven (x / ?q)) :: real) \<le> of_int (2 ^ 53)"
    by (simp only: of_int_le_iff)
  then have "?q * of_int (roundHalfEven (x / ?q)) \<le> ?q * 2 ^ 53"
    by (intro mult_left_mono) (simp_all add: less_imp_le)
  then show ?thesis
    using x by (simp add: rnd_def quantum_def power_int_diff power_int_add field_simps)
qed

lemma rnd_lower_binade: "2 powi (- 1022) \<le> x \<Longrightarrow> 2 powi (binade x) \<le> rnd x"
proof -
  assume a: "2 powi (- 1022) \<le> x"
  then have x: "0 < x"
    by (meson less_le_trans zero_less_numeral zero_less_power_int)
  let ?q = "quantum x"
  have "2 powi (binade x) \<le> x"
    using binade_lower [of x] a x by simp
  moreover have "2 powi (binade x) = ?q * 2 ^ 52"
    by (simp add: quantum_def power_int_diff field_simps)
  ultimately have "2 ^ 52 \<le> x / ?q"
    by (simp add: field_simps)
  then have "roundHalfEven (of_int (2 ^ 52)) \<le> roundHalfEven (x / ?q)"
    by (intro roundHalfEven_mono) simp
  then have "2 ^ 52 \<le> roundHalfEven (x / ?q)" by simp
  then have "(of_int (2 ^ 52) :: real) \<le> of_int (roundHalfEven (x / ?q))"
    by (simp only: of_int_le_iff)
  then have "?q * 2 ^ 52 \<le> ?q * of_int (roundHalfEven (x / ?q))"
    by (intro mult_left_mono) (simp_all add: less_imp_le)
  then show ?thesis
    using x by (simp add: rnd_def quantum_def power_int_diff field_simps)
qed

lemma binade_mono: "x \<noteq> 0 \<Longrightarrow> \<bar>x\<bar> \<le> \<bar>y\<bar> \<Longrightarrow> binade x \<le> binade y"
proof -
  assume x: "x \<noteq> 0" and le: "\<bar>x\<bar> \<le> \<bar>y\<bar>"
  then have "log 2 \<bar>x\<bar> \<le> log 2 \<bar>y\<bar>" by simp
  then have "\<lfloor>log 2 \<bar>x\<bar>\<rfloor> \<le> \<lfloor>log 2 \<bar>y\<bar>\<rfloor>" by (rule floor_mono)
  then show ?thesis by (simp add: binade_def)
qed

lemma rnd_mono_pos:
  assumes "0 < x" and "x \<le> y"
  shows "rnd x \<le> rnd y"
proof -
  from assms have y: "0 < y" by simp
  have le: "binade x \<le> binade y"
    using assms by (intro binade_mono) simp_all
  show ?thesis
  proof (cases "binade x = binade y")
    case True
    then have q: "quantum x = quantum y" by (simp add: quantum_def)
    have "x / quantum y \<le> y / quantum y"
      using assms(2) by (simp add: divide_right_mono less_imp_le)
    then have "roundHalfEven (x / quantum y) \<le> roundHalfEven (y / quantum y)"
      by (rule roundHalfEven_mono)
    then have "(of_int (roundHalfEven (x / quantum y)) :: real)
        \<le> of_int (roundHalfEven (y / quantum y))"
      by (simp only: of_int_le_iff)
    then have "quantum y * of_int (roundHalfEven (x / quantum y))
        \<le> quantum y * of_int (roundHalfEven (y / quantum y))"
      by (intro mult_left_mono) (simp_all add: less_imp_le)
    then show ?thesis
      using assms(1) y by (simp add: rnd_def q)
  next
    case False
    with le have lt: "binade x + 1 \<le> binade y" by simp
    then have "- 1022 < binade y"
      using binade_ge [of x] by linarith
    then have "\<not> \<bar>y\<bar> < 2 powi (- 1022)"
      using binade_subnormal [of y] y by auto
    then have "2 powi (- 1022) \<le> y" using y by simp
    then have "2 powi (binade y) \<le> rnd y" by (rule rnd_lower_binade)
    moreover have "rnd x \<le> 2 powi (binade x + 1)"
      using assms(1) by (rule rnd_upper_binade)
    moreover have "(2::real) powi (binade x + 1) \<le> 2 powi (binade y)"
      using lt by (intro power_int_increasing) simp_all
    ultimately show ?thesis by linarith
  qed
qed

lemma rnd_mono: "x \<le> y \<Longrightarrow> rnd x \<le> rnd y"
proof -
  assume le: "x \<le> y"
  consider "0 < x" | "x \<le> 0" "0 \<le> y" | "y < 0" by linarith
  then show ?thesis
  proof cases
    case 1
    then show ?thesis using le by (rule rnd_mono_pos)
  next
    case 2
    have "rnd x \<le> 0"
      using rnd_nonneg [of "- x"] 2(1) by (simp add: rnd_minus)
    moreover have "0 \<le> rnd y" using 2(2) by (rule rnd_nonneg)
    ultimately show ?thesis by simp
  next
    case 3
    then have "rnd (- y) \<le> rnd (- x)"
      using le by (intro rnd_mono_pos) simp_all
    then show ?thesis by (simp add: rnd_minus)
  qed
qed


lemma rnd_eval_near:
  assumes "- 1022 \<le> k" and "2 powi k \<le> \<bar>x\<bar>" and "\<bar>x\<bar> < 2 powi (k + 1)"
    and "\<bar>x / 2 powi (k - 52) - of_int n\<bar> < 1 / 2"
  shows "rnd x = of_int n * 2 powi (k - 52)"
proof -
  have b: "binade x = k" using assms(1-3) by (rule binade_eq)
  have x: "x \<noteq> 0"
    using assms(2) by (metis abs_zero not_le zero_less_numeral zero_less_power_int)
  have "roundHalfEven (x / 2 powi (k - 52)) = n"
    using assms(4) by (rule roundHalfEven_near)
  then show ?thesis
    using x by (simp add: rnd_def quantum_def b)
qed

lemma rnd_eval_tie_even:
  assumes "- 1022 \<le> k" and "2 powi k \<le> \<bar>x\<bar>" and "\<bar>x\<bar> < 2 powi (k + 1)"
    and "x / 2 powi (k - 52) = of_int n + 1 / 2" and "even n"
  shows "rnd x = of_int n * 2 powi (k - 52)"
proof -
  have b: "binade x = k" using assms(1-3) by (rule binade_eq)
  have x: "x \<noteq> 0"
    using assms(2) by (metis abs_zero not_le zero_less_numeral zero_less_power_int)
  have "roundHalfEven (x / 2 powi (k - 52)) = n"
    using assms(4,5) by (rule roundHalfEven_tie_even)
  then show ?thesis
    using x by (simp add: rnd_def quantum_def b)
qed

lemma rnd_ratio_bound: "x \<noteq> 0 \<Longrightarrow> \<bar>x / quantum x\<bar> < 2 ^ 53"
proof -
  assume x: "x \<noteq> 0"
  have "\<bar>x\<bar> < 2 powi (binade x + 1)" using x by (rule binade_upper)
  also have "\<dots> = quantum x * 2 ^ 53"
    by (simp add: quantum_def power_int_diff power_int_add field_simps)
  finally show ?thesis
    by (simp add: field_simps abs_mult less_imp_le)
qed

lemma roundHalfEven_bound: "x \<noteq> 0 \<Longrightarrow> \<bar>roundHalfEven (x / quantum x)\<bar> \<le> 2 ^ 53"
proof -
  assume x: "x \<noteq> 0"
  let ?y = "x / quantum x"
  from rnd_ratio_bound [OF x] have lo: "- (2 ^ 53) \<le> ?y" and hi: "?y \<le> 2 ^ 53"
    by (simp_all add: abs_if split: if_splits)
  have "roundHalfEven (- (2 ^ 53)) \<le> roundHalfEven ?y"
    using lo by (rule roundHalfEven_mono)
  then have a: "- (2 ^ 53) \<le> roundHalfEven ?y"
    by (simp add: roundHalfEven_minus)
  have "roundHalfEven ?y \<le> roundHalfEven (2 ^ 53)"
    using hi by (rule roundHalfEven_mono)
  then have b: "roundHalfEven ?y \<le> 2 ^ 53"
    by simp
  from a b show ?thesis by simp
qed

lemma two_powi_nonneg_int: "0 \<le> t \<Longrightarrow> (2::real) powi t = of_int (2 ^ nat t)"
  by (simp add: power_int_nonneg_exp)

lemma rnd_representable:
  assumes "\<bar>n\<bar> \<le> 2 ^ 53" and "- 1074 \<le> j"
  shows "rnd (of_int n * 2 powi j) = of_int n * 2 powi j"
proof (cases "n = 0")
  case True
  then show ?thesis by simp
next
  case False
  let ?x = "of_int n * 2 powi j :: real"
  let ?e = "binade ?x"
  have x: "?x \<noteq> 0" using False by simp
  have absx: "\<bar>?x\<bar> = of_int \<bar>n\<bar> * 2 powi j"
    by (simp add: abs_mult)
  have up: "\<bar>?x\<bar> \<le> 2 powi (j + 53)"
  proof -
    have "(of_int \<bar>n\<bar> :: real) \<le> of_int (2 ^ 53)"
      using assms(1) by (simp only: of_int_le_iff)
    then have "of_int \<bar>n\<bar> * 2 powi j \<le> (2 ^ 53 :: real) * 2 powi j"
      by (intro mult_right_mono) simp_all
    also have "\<dots> = 2 powi (j + 53)"
      by (simp add: power_int_add)
    finally show ?thesis by (simp only: absx)
  qed
  have ex: "\<exists>m. ?x / quantum ?x = of_int m"
  proof (cases "?e \<le> j + 52")
    case True
    then have t: "0 \<le> j - ?e + 52" by simp
    have "?x / quantum ?x = of_int n * 2 powi (j - ?e + 52)"
      by (simp add: quantum_def power_int_diff power_int_add field_simps)
    also have "\<dots> = of_int (n * 2 ^ nat (j - ?e + 52))"
      by (simp add: two_powi_nonneg_int [OF t])
    finally show ?thesis by blast
  next
    case big: False
    then have gt: "- 1022 < ?e" using assms(2) by linarith
    then have "\<not> \<bar>?x\<bar> < 2 powi (- 1022)"
      using binade_subnormal [OF x] by auto
    then have "2 powi ?e \<le> \<bar>?x\<bar>"
      by (intro binade_lower) simp
    with up have "(2::real) powi ?e \<le> 2 powi (j + 53)" by linarith
    then have "?e \<le> j + 53"
      by (rule two_powi_le_D)
    with big have e: "?e = j + 53" by simp
    have "(2::real) powi (j + 53) \<le> of_int \<bar>n\<bar> * 2 powi j"
      using \<open>2 powi ?e \<le> \<bar>?x\<bar>\<close> unfolding e absx .
    then have "(2 ^ 53 :: real) * 2 powi j \<le> of_int \<bar>n\<bar> * 2 powi j"
      by (simp add: power_int_add)
    then have "(2 ^ 53 :: real) \<le> of_int \<bar>n\<bar>"
      by simp
    then have "(of_int (2 ^ 53) :: real) \<le> of_int \<bar>n\<bar>" by simp
    then have "2 ^ 53 \<le> \<bar>n\<bar>" by (simp only: of_int_le_iff)
    with assms(1) have n: "\<bar>n\<bar> = 2 ^ 53" by simp
    have "?x / quantum ?x = of_int n * 2 powi (- 1)"
      unfolding quantum_def e by (simp add: power_int_diff power_int_add field_simps)
    also have "\<dots> = of_int (n div 2)"
    proof -
      from n have "n = 2 ^ 53 \<or> n = - (2 ^ 53)" by (simp add: abs_if split: if_splits)
      then show ?thesis by (auto simp add: power_int_minus)
    qed
    finally show ?thesis by blast
  qed
  then obtain m where m: "?x / quantum ?x = of_int m" ..
  then have "?x = quantum ?x * of_int m"
    by (simp add: field_simps)
  moreover have "rnd ?x = quantum ?x * of_int m"
    using x by (simp only: rnd_def m roundHalfEven_of_int if_False)
  ultimately show ?thesis by simp
qed

lemma rnd_idem [simp]: "rnd (rnd x) = rnd x"
proof (cases "x = 0")
  case True
  then show ?thesis by simp
next
  case False
  have "rnd x = of_int (roundHalfEven (x / quantum x)) * 2 powi (binade x - 52)"
    using False by (simp add: rnd_def quantum_def)
  moreover have "rnd (of_int (roundHalfEven (x / quantum x)) * 2 powi (binade x - 52))
      = of_int (roundHalfEven (x / quantum x)) * 2 powi (binade x - 52)"
    using roundHalfEven_bound [OF False] binade_ge [of x]
    by (intro rnd_representable) simp_all
  ultimately show ?thesis by simp
qed

lemma isDouble_rnd [simp]: "isDouble (rnd x)"
  by (simp add: isDouble_def)

lemma isDouble_of_int: "\<bar>n\<bar> \<le> 2 ^ 53 \<Longrightarrow> isDouble (of_int n)"
  using rnd_representable [of n 0] by (simp add: isDouble_def)



lemma abs_sum4: "\<bar>a + b + c + d\<bar> \<le> \<bar>a\<bar> + \<bar>b\<bar> + \<bar>c\<bar> + \<bar>d :: real\<bar>"
  by linarith

lemma ema_arith:
  fixes old ps p1 p2 new K u h W A :: real
  assumes u: "0 \<le> u" "u \<le> 1 / 8" and h: "0 \<le> h"
    and K: "\<bar>old\<bar> \<le> K" "\<bar>ps\<bar> \<le> K"
    and W: "0 \<le> W" and A: "0 \<le> A" and WA: "W + A \<le> 1"
    and c: "\<bar>W - 7 / 10\<bar> + \<bar>A - 3 / 10\<bar> \<le> u / 2"
    and e1: "\<bar>p1 - old * W\<bar> \<le> u * \<bar>old * W\<bar> + h"
    and e2: "\<bar>p2 - ps * A\<bar> \<le> u * \<bar>ps * A\<bar> + h"
    and e3: "\<bar>new - (p1 + p2)\<bar> \<le> u * \<bar>p1 + p2\<bar> + h"
  shows "\<bar>new - (7 / 10 * old + 3 / 10 * ps)\<bar> \<le> 4 * u * K + 4 * h"
proof -
  have K0: "0 \<le> K" using K(1) by linarith
  define T where "T = u * K"
  have T0: "0 \<le> T" unfolding T_def using u(1) K0 by simp
  have a1: "\<bar>old * W\<bar> \<le> K * W"
    using K(1) W by (simp add: abs_mult mult_right_mono)
  have a2: "\<bar>ps * A\<bar> \<le> K * A"
    using K(2) A by (simp add: abs_mult mult_right_mono)
  have b1: "u * \<bar>old * W\<bar> \<le> T * W"
    unfolding T_def using mult_left_mono [OF a1 u(1)] by (simp add: mult.assoc)
  have b2: "u * \<bar>ps * A\<bar> \<le> T * A"
    unfolding T_def using mult_left_mono [OF a2 u(1)] by (simp add: mult.assoc)
  have KWA: "K * W + K * A \<le> K"
    using mult_left_mono [OF WA K0] by (simp add: algebra_simps)
  have TWA: "T * W + T * A \<le> T"
    using mult_left_mono [OF WA T0] by (simp add: algebra_simps)
  have s: "\<bar>p1 + p2\<bar> \<le> K + T + 2 * h"
    using e1 e2 a1 a2 b1 b2 KWA TWA by linarith
  have uT: "u * T \<le> T / 8"
    using mult_right_mono [OF u(2) T0] by simp
  have uh: "u * h \<le> h / 8"
    using mult_right_mono [OF u(2) h] by simp
  have "u * \<bar>p1 + p2\<bar> \<le> u * (K + T + 2 * h)"
    using s u(1) by (rule mult_left_mono)
  also have "\<dots> = T + u * T + 2 * (u * h)"
    by (simp add: T_def algebra_simps)
  finally have c3: "u * \<bar>p1 + p2\<bar> \<le> T + T / 8 + h / 4"
    using uT uh by linarith
  have "\<bar>old * (W - 7 / 10) + ps * (A - 3 / 10)\<bar>
      \<le> \<bar>old\<bar> * \<bar>W - 7 / 10\<bar> + \<bar>ps\<bar> * \<bar>A - 3 / 10\<bar>"
    by (metis abs_mult abs_triangle_ineq)
  also have "\<dots> \<le> K * \<bar>W - 7 / 10\<bar> + K * \<bar>A - 3 / 10\<bar>"
    using K by (intro add_mono mult_right_mono) simp_all
  also have "\<dots> = K * (\<bar>W - 7 / 10\<bar> + \<bar>A - 3 / 10\<bar>)"
    by (simp add: algebra_simps)
  also have "\<dots> \<le> K * (u / 2)"
    using c K0 by (rule mult_left_mono)
  finally have d: "\<bar>old * (W - 7 / 10) + ps * (A - 3 / 10)\<bar> \<le> T / 2"
    by (simp add: T_def algebra_simps)
  have split: "new - (7 / 10 * old + 3 / 10 * ps)
      = (new - (p1 + p2)) + (p1 - old * W) + (p2 - ps * A)
        + (old * (W - 7 / 10) + ps * (A - 3 / 10))"
    by (simp add: algebra_simps)
  have "\<bar>new - (7 / 10 * old + 3 / 10 * ps)\<bar>
      \<le> \<bar>new - (p1 + p2)\<bar> + \<bar>p1 - old * W\<bar> + \<bar>p2 - ps * A\<bar>
        + \<bar>old * (W - 7 / 10) + ps * (A - 3 / 10)\<bar>"
    unfolding split by (rule abs_sum4)
  then have "\<bar>new - (7 / 10 * old + 3 / 10 * ps)\<bar> \<le> 4 * T + 4 * h"
    using e1 e2 e3 b1 b2 c3 d TWA T0 h by linarith
  then show ?thesis by (simp add: T_def)
qed

text \<open>The roundings met in the scenarios and in the constants of the program.\<close>

lemma rnd_value_1: "rnd (3 / 10) = 5404319552844595 / 18014398509481984"
  using rnd_eval_near [of "- 2" "3 / 10" 5404319552844595]
  by simp

lemma rnd_value_2: "rnd (3 / 5) = 5404319552844595 / 9007199254740992"
  using rnd_eval_near [of "- 1" "3 / 5" 5404319552844595]
  by simp

lemma rnd_value_3: "rnd (2 / 5) = 3602879701896397 / 9007199254740992"
  using rnd_eval_near [of "- 2" "2 / 5" 7205759403792794]
  by simp

lemma rnd_value_4: "rnd (1 / 10) = 3602879701896397 / 36028797018963968"
  using rnd_eval_near [of "- 4" "1 / 10" 7205759403792794]
  by simp

lemma rnd_value_5: "rnd (12610078956637389 / 18014398509481984) = 3152519739159347 / 4503599627370496"
  using rnd_eval_tie_even [of "- 1" "12610078956637389 / 18014398509481984" 6305039478318694]
  by simp

lemma rnd_value_6: "rnd (1) = 1"
  using rnd_eval_near [of 0 "1" 4503599627370496]
  by simp

lemma rnd_value_7: "rnd (1 / 2) = 1 / 2"
  using rnd_eval_near [of "- 1" "1 / 2" 4503599627370496]
  by simp

lemma rnd_value_8: "rnd (32425917317067571 / 36028797018963968) = 8106479329266893 / 9007199254740992"
  using rnd_eval_near [of "- 1" "32425917317067571 / 36028797018963968" 8106479329266893]
  by simp

lemma rnd_value_9: "rnd (5404319552844595 / 9007199254740992) = 5404319552844595 / 9007199254740992"
  using rnd_eval_near [of "- 1" "5404319552844595 / 9007199254740992" 5404319552844595]
  by simp

lemma rnd_value_10: "rnd (29206669829258407752355848084521 / 81129638414606681695789005144064) = 6485183463413515 / 18014398509481984"
  using rnd_eval_near [of "- 2" "29206669829258407752355848084521 / 81129638414606681695789005144064" 6485183463413515]
  by simp

lemma rnd_value_11: "rnd (17293822569102705 / 18014398509481984) = 1080863910568919 / 1125899906842624"
  using rnd_eval_tie_even [of "- 1" "17293822569102705 / 18014398509481984" 8646911284551352]
  by simp

lemma rnd_value_12: "rnd (27021597764222975 / 281474976710656) = 96"
  using rnd_eval_near [of 6 "27021597764222975 / 281474976710656" 6755399441055744]
  by simp

lemma rnd_value_13: "rnd (9457559217478041 / 140737488355328) = 1182194902184755 / 17592186044416"
  using rnd_eval_tie_even [of 6 "9457559217478041 / 140737488355328" 4728779608739020]
  by simp

lemma rnd_value_14: "rnd (16212958658533785 / 562949953421312) = 2026619832316723 / 70368744177664"
  using rnd_eval_tie_even [of 4 "16212958658533785 / 562949953421312" 8106479329266892]
  by simp

lemma rnd_value_15: "rnd (6755399441055743 / 70368744177664) = 6755399441055743 / 70368744177664"
  using rnd_eval_near [of 6 "6755399441055743 / 70368744177664" 6755399441055743]
  by simp

lemma rnd_value_16: "rnd (183746864796716237 / 36028797018963968) = 2871044762448691 / 562949953421312"
  using rnd_eval_near [of 2 "183746864796716237 / 36028797018963968" 5742089524897382]
  by simp

lemma rnd_value_17: "rnd (3602879701896397 / 9007199254740992) = 3602879701896397 / 9007199254740992"
  using rnd_eval_near [of "- 2" "3602879701896397 / 9007199254740992" 7205759403792794]
  by simp

lemma rnd_value_18: "rnd (90071992547409925 / 2251799813685248) = 40"
  using rnd_eval_near [of 5 "90071992547409925 / 2251799813685248" 5629499534213120]
  by simp

lemma rnd_value_19: "rnd (78812993478983675 / 2251799813685248) = 35"
  using rnd_eval_near [of 5 "78812993478983675 / 2251799813685248" 4925812092436480]
  by simp

lemma rnd_value_20: "rnd (27021597764222975 / 2251799813685248) = 12"
  using rnd_eval_near [of 3 "27021597764222975 / 2251799813685248" 6755399441055744]
  by simp

lemma rnd_value_21: "rnd (47) = 47"
  using rnd_eval_near [of 5 "47" 6614661952700416]
  by simp

lemma rnd_value_22: "rnd (21617278211378381 / 36028797018963968) = 5404319552844595 / 9007199254740992"
  using rnd_eval_near [of "- 1" "21617278211378381 / 36028797018963968" 5404319552844595]
  by simp

lemma rnd_value_23: "rnd (148168427740489309 / 4503599627370496) = 4630263366890291 / 140737488355328"
  using rnd_eval_near [of 5 "148168427740489309 / 4503599627370496" 4630263366890291]
  by simp

lemma rnd_value_24: "rnd (6319113227154227 / 140737488355328) = 6319113227154227 / 140737488355328"
  using rnd_eval_near [of 5 "6319113227154227 / 140737488355328" 6319113227154227]
  by simp

lemma rnd_value_25: "rnd (25220157913274777 / 36028797018963968) = 3152519739159347 / 4503599627370496"
  using rnd_eval_near [of "- 1" "25220157913274777 / 36028797018963968" 6305039478318694]
  by simp

lemma rnd_value_26: "rnd (19471113219505603967277331424215 / 81129638414606681695789005144064) = 1080863910568919 / 4503599627370496"
  using rnd_eval_near [of "- 3" "19471113219505603967277331424215 / 81129638414606681695789005144064" 8646911284551352]
  by simp

lemma rnd_value_27: "rnd (1080863910568919 / 4503599627370496) = 1080863910568919 / 4503599627370496"
  using rnd_eval_near [of "- 3" "1080863910568919 / 4503599627370496" 8646911284551352]
  by simp

lemma rnd_value_28: "rnd (27021597764222975 / 1125899906842624) = 24"
  using rnd_eval_near [of 4 "27021597764222975 / 1125899906842624" 6755399441055744]
  by simp

lemma rnd_value_29: "rnd (9457559217478041 / 562949953421312) = 1182194902184755 / 70368744177664"
  using rnd_eval_tie_even [of 4 "9457559217478041 / 562949953421312" 4728779608739020]
  by simp

lemma rnd_value_30: "rnd (16212958658533785 / 2251799813685248) = 2026619832316723 / 281474976710656"
  using rnd_eval_tie_even [of 2 "16212958658533785 / 2251799813685248" 8106479329266892]
  by simp

lemma rnd_value_31: "rnd (6755399441055743 / 281474976710656) = 6755399441055743 / 281474976710656"
  using rnd_eval_near [of 4 "6755399441055743 / 281474976710656" 6755399441055743]
  by simp

lemma rnd_value_32: "rnd (39631676720860365 / 36028797018963968) = 2476979795053773 / 2251799813685248"
  using rnd_eval_near [of 0 "39631676720860365 / 36028797018963968" 4953959590107546]
  by simp

lemma rnd_value_33: "rnd (449 / 10) = 6319113227154227 / 140737488355328"
  using rnd_eval_near [of 5 "449 / 10" 6319113227154227]
  by simp

lemma rnd_value_34: "rnd (7 / 10) = 3152519739159347 / 4503599627370496"
  using rnd_eval_near [of "- 1" "7 / 10" 6305039478318694]
  by simp

lemma rnd_value_35: "rnd (9 / 10) = 8106479329266893 / 9007199254740992"
  using rnd_eval_near [of "- 1" "9 / 10" 8106479329266893]
  by simp

lemmas rnd_values =
  rnd_value_1 rnd_value_2 rnd_value_3 rnd_value_4 rnd_value_5
  rnd_value_6 rnd_value_7 rnd_value_8 rnd_value_9 rnd_value_10
  rnd_value_11 rnd_value_12 rnd_value_13 rnd_value_14 rnd_value_15
  rnd_value_16 rnd_value_17 rnd_value_18 rnd_value_19 rnd_value_20
  rnd_value_21 rnd_value_22 rnd_value_23 rnd_value_24 rnd_value_25
  rnd_value_26 rnd_value_27 rnd_value_28 rnd_value_29 rnd_value_30
  rnd_value_31 rnd_value_32 rnd_value_33 rnd_value_34 rnd_value_35

lemma ema_rounded:
  "\<bar>rnd (rnd (old * rnd (1 - rnd (3 / 10))) + rnd (ps * rnd (3 / 10)))
      - (7 / 10 * old + 3 / 10 * ps)\<bar>
   \<le> 2 powi (- 51) * max \<bar>old\<bar> \<bar>ps\<bar> + 2 powi (- 1073)"
proof -
  let ?W = "3152519739159347 / 4503599627370496 :: real"
  let ?A = "5404319552844595 / 18014398509481984 :: real"
  let ?u = "2 powi (- 53) :: real"
  let ?h = "2 powi (- 1075) :: real"
  have "\<bar>rnd (rnd (old * ?W) + rnd (ps * ?A)) - (7 / 10 * old + 3 / 10 * ps)\<bar>
      \<le> 4 * ?u * max \<bar>old\<bar> \<bar>ps\<bar> + 4 * ?h"
  proof (rule ema_arith [where W = ?W and A = ?A and ?p1.0 = "rnd (old * ?W)" and ?p2.0 = "rnd (ps * ?A)"])
    show "0 \<le> ?u" by simp
    show "?u \<le> 1 / 8" by (simp add: power_int_minus field_simps)
    show "0 \<le> ?h" by simp
    show "\<bar>old\<bar> \<le> max \<bar>old\<bar> \<bar>ps\<bar>" by simp
    show "\<bar>ps\<bar> \<le> max \<bar>old\<bar> \<bar>ps\<bar>" by simp
    show "0 \<le> ?W" by simp
    show "0 \<le> ?A" by simp
    show "?W + ?A \<le> 1" by simp
    show "\<bar>?W - 7 / 10\<bar> + \<bar>?A - 3 / 10\<bar> \<le> ?u / 2"
      by (simp add: power_int_minus field_simps)
    show "\<bar>rnd (old * ?W) - old * ?W\<bar> \<le> ?u * \<bar>old * ?W\<bar> + ?h"
      by (rule rnd_rel_error)
    show "\<bar>rnd (ps * ?A) - ps * ?A\<bar> \<le> ?u * \<bar>ps * ?A\<bar> + ?h"
      by (rule rnd_rel_error)
    show "\<bar>rnd (rnd (old * ?W) + rnd (ps * ?A)) - (rnd (old * ?W) + rnd (ps * ?A))\<bar>
        \<le> ?u * \<bar>rnd (old * ?W) + rnd (ps * ?A)\<bar> + ?h"
      by (rule rnd_rel_error)
  qed
  moreover have "4 * ?u = 2 powi (- 51)" and "4 * ?h = 2 powi (- 1073)"
    by (simp_all add: power_int_minus field_simps)
  ultimately show ?thesis
    by (simp add: rnd_value_1 rnd_value_5)
qed

section \<open>Properties of the adaptive algorithm\<close>

lemma speedFactor_range: "0 \<le> speedFactor m \<and> speedFactor m \<le> 1"
  by (simp add: speedFactor_def)

lemma updateSkillEstimate_mathFluency:
  "mathFluency (updateSkillEstimate e m)
     = rnd (rnd (mathFluency e * rnd (1 - rnd (3 / 10))) + rnd (performanceScore m * rnd (3 / 10)))"
  by (simp add: updateSkillEstimate_def alpha_def fadd_def fsub_def fmul_def Let_def)

lemma updateSkillEstimate_confidence:
  "confidence (updateSkillEstimate e m) = min 1 (rnd (confidence e + rnd (1 / 10)))"
  by (simp add: updateSkillEstimate_def fadd_def Let_def)

lemma updateSkillEstimate_near_average:
  "\<bar>mathFluency (updateSkillEstimate e m)
      - (7 / 10 * mathFluency e + 3 / 10 * performanceScore m)\<bar>
   \<le> roundingTolerance (mathFluency e) (performanceScore m)"
  unfolding updateSkillEstimate_mathFluency roundingTolerance_def by (rule ema_rounded)

lemma tenth_nonneg: "0 \<le> rnd (1 / 10)"
  by (rule rnd_nonneg) simp

lemma isDouble_one: "isDouble 1"
  by (simp add: isDouble_def rnd_value_6)

lemma confidence_not_lowered:
  assumes "isDouble c" and "c \<le> 1"
  shows "c \<le> min 1 (rnd (c + rnd (1 / 10)))"
proof -
  have "rnd c \<le> rnd (c + rnd (1 / 10))"
    using tenth_nonneg by (intro rnd_mono) simp
  then have "c \<le> rnd (c + rnd (1 / 10))"
    using assms(1) by (simp add: isDouble_def)
  with assms(2) show ?thesis by simp
qed

lemma isDouble_new_confidence: "isDouble (min 1 (rnd x))"
  using isDouble_one isDouble_rnd [of x] by (simp add: min_def)

lemma tenth_sum_error:
  assumes "0 \<le> c"
  shows "\<bar>rnd (c + rnd (1 / 10)) - (c + rnd (1 / 10))\<bar> \<le> (c + 1) / 1000"
proof -
  let ?x = "c + rnd (1 / 10)"
  define t where "t = 2 powi (- 53) * ?x"
  define h :: real where "h = 2 powi (- 1075)"
  have x: "0 \<le> ?x" "?x \<le> c + 1 / 2"
    using assms by (simp_all add: rnd_value_4)
  have "\<bar>rnd ?x - ?x\<bar> \<le> 2 powi (- 53) * \<bar>?x\<bar> + 2 powi (- 1075)"
    by (rule rnd_rel_error)
  then have e: "\<bar>rnd ?x - ?x\<bar> \<le> t + h"
    using x(1) by (simp add: t_def h_def)
  have u: "(2::real) powi (- 53) \<le> 1 / 2000"
    by (simp add: power_int_minus field_simps)
  have "h \<le> 2 powi (- 53)"
    unfolding h_def by (rule power_int_increasing) simp_all
  with u have h: "h \<le> 1 / 2000" by linarith
  have "t \<le> 1 / 2000 * ?x"
    unfolding t_def using u x(1) by (rule mult_right_mono)
  with x(2) have t: "t \<le> (c + 1 / 2) / 2000" by simp
  from e h t assms show ?thesis by simp
qed

lemma raised_arith:
  fixes r c a :: real
  assumes "\<bar>r - (c + a)\<bar> \<le> (c + 1) / 1000" and "0 \<le> c" and "c < 1"
    and "1 / 10 - 1 / 1000 \<le> a"
  shows "c < r"
  using assms by argo

lemma below_one_arith:
  fixes r c a :: real
  assumes "\<bar>r - (c + a)\<bar> \<le> (c + 1) / 1000" and "0 \<le> c" and "c \<le> 8 / 10"
    and "a \<le> 1 / 10 + 1 / 1000"
  shows "r < 1"
  using assms by argo

lemma confidence_sum_raised:
  assumes "0 \<le> c" and "c < 1"
  shows "c < rnd (c + rnd (1 / 10))"
proof -
  have "1 / 10 - 1 / 1000 \<le> rnd (1 / 10)"
    by (simp add: rnd_value_4)
  with tenth_sum_error [OF assms(1)] assms show ?thesis
    by (rule raised_arith [where a = "rnd (1 / 10)"])
qed

lemma confidence_raised:
  assumes "0 \<le> c" and "c < 1"
  shows "c < min 1 (rnd (c + rnd (1 / 10)))"
  using confidence_sum_raised [OF assms] assms(2) by simp

lemma confidence_below_one:
  assumes "0 \<le> c" and "c \<le> 8 / 10"
  shows "rnd (c + rnd (1 / 10)) < 1"
proof -
  have "rnd (1 / 10) \<le> 1 / 10 + 1 / 1000"
    by (simp add: rnd_value_4)
  with tenth_sum_error [OF assms(1)] assms show ?thesis
    by (rule below_one_arith [where a = "rnd (1 / 10)" and c = c])
qed

lemma toward_arith:
  fixes n :: real
  assumes "\<bar>n - (7 / 10 * old + 3 / 10 * p)\<bar> \<le> t"
  shows "\<bar>n - p\<bar> \<le> 7 / 10 * \<bar>old - p\<bar> + t"
proof -
  have "n - p = (n - (7 / 10 * old + 3 / 10 * p)) + 7 / 10 * (old - p)"
    by (simp add: field_simps)
  then have "\<bar>n - p\<bar> \<le> \<bar>n - (7 / 10 * old + 3 / 10 * p)\<bar> + \<bar>7 / 10 * (old - p)\<bar>"
    by (metis abs_triangle_ineq)
  also have "\<bar>7 / 10 * (old - p)\<bar> = 7 / 10 * \<bar>old - p\<bar>"
    by (simp only: abs_mult)
  finally show ?thesis using assms by simp
qed

text \<open>
  Claim C3, as the code has it. The new \<open>mathFluency\<close> is the moving average
  \<open>0.7 * old + 0.3 * performanceScore\<close> up to the rounding of the doubles: it is
  within \<open>roundingTolerance\<close> of that average, hence between the old value and the
  performance score up to that tolerance, and its distance to the performance
  score is at most 0.7 times the old distance plus that tolerance. The new
  confidence is \<open>min 1 (old + 0.1)\<close> in the arithmetic of doubles; it is at most 1,
  it is not below an old confidence of at most 1, and from the first update on it
  never goes down.
\<close>

theorem C3_update_toward_score:
  "\<bar>mathFluency (updateSkillEstimate e m)
      - (7 / 10 * mathFluency e + 3 / 10 * performanceScore m)\<bar>
     \<le> roundingTolerance (mathFluency e) (performanceScore m)
   \<and> min (mathFluency e) (performanceScore m)
       - roundingTolerance (mathFluency e) (performanceScore m)
     \<le> mathFluency (updateSkillEstimate e m)
   \<and> mathFluency (updateSkillEstimate e m)
     \<le> max (mathFluency e) (performanceScore m)
       + roundingTolerance (mathFluency e) (performanceScore m)
   \<and> \<bar>mathFluency (updateSkillEstimate e m) - performanceScore m\<bar>
     \<le> 7 / 10 * \<bar>mathFluency e - performanceScore m\<bar>
       + roundingTolerance (mathFluency e) (performanceScore m)
   \<and> confidence (updateSkillEstimate e m) = min 1 (fadd (confidence e) (rnd 0.1))
   \<and> confidence (updateSkillEstimate e m) \<le> 1
   \<and> (isDouble (confidence e) \<and> confidence e \<le> 1
        \<longrightarrow> confidence e \<le> confidence (updateSkillEstimate e m))
   \<and> confidence (updateSkillEstimate e m)
     \<le> confidence (updateSkillEstimate (updateSkillEstimate e m) m')"
proof -
  let ?old = "mathFluency e" and ?ps = "performanceScore m"
  let ?new = "mathFluency (updateSkillEstimate e m)"
  let ?tol = "roundingTolerance ?old ?ps"
  have near: "\<bar>?new - (7 / 10 * ?old + 3 / 10 * ?ps)\<bar> \<le> ?tol"
    by (rule updateSkillEstimate_near_average)
  have lo: "min ?old ?ps - ?tol \<le> ?new"
    using near by (simp add: min_def) linarith
  have hi: "?new \<le> max ?old ?ps + ?tol"
    using near by (simp add: max_def) linarith
  have toward: "\<bar>?new - ?ps\<bar> \<le> 7 / 10 * \<bar>?old - ?ps\<bar> + ?tol"
    using near by (rule toward_arith)
  have c1: "confidence (updateSkillEstimate e m) = min 1 (fadd (confidence e) (rnd 0.1))"
    by (simp add: updateSkillEstimate_def Let_def)
  have c2: "confidence (updateSkillEstimate e m) \<le> 1"
    by (simp add: updateSkillEstimate_confidence)
  have c3: "isDouble (confidence e) \<and> confidence e \<le> 1
      \<longrightarrow> confidence e \<le> confidence (updateSkillEstimate e m)"
    unfolding updateSkillEstimate_confidence using confidence_not_lowered by blast
  have "isDouble (confidence (updateSkillEstimate e m))"
    unfolding updateSkillEstimate_confidence by (rule isDouble_new_confidence)
  then have c4: "confidence (updateSkillEstimate e m)
      \<le> confidence (updateSkillEstimate (updateSkillEstimate e m) m')"
    unfolding updateSkillEstimate_confidence [of "updateSkillEstimate e m" m']
    using c2 by (intro confidence_not_lowered)
  show ?thesis
    using near lo hi toward c1 c2 c3 c4 by blast
qed

theorem C3_update_toward_score_witness:
  "isDouble (confidence estimate50) \<and> confidence estimate50 \<le> 1
   \<and> confidence estimate50 \<le> confidence (updateSkillEstimate estimate50 roundOneCorrect)"
proof -
  have h: "isDouble (confidence estimate50) \<and> confidence estimate50 \<le> 1"
    by (simp add: estimate50_def isDouble_def rnd_value_7)
  show ?thesis
    using h C3_update_toward_score [of estimate50 roundOneCorrect roundOneCorrect] by blast
qed

lemma performanceScore_roundOneCorrect: "performanceScore roundOneCorrect = 96"
  by (simp add: performanceScore_def accuracy_def speedFactor_def roundOneCorrect_def
      fadd_def fsub_def fmul_def fdiv_def rnd_values)

text \<open>
  Claim C3 as stated fails. At \<open>mathFluency\<close> 96 and a performance score of 96 the
  update returns the double below 96 (printed \<open>95.99999999999999\<close>), which is
  not between the two; and a confidence of 5 is lowered to 1.
\<close>

theorem C3_not_between_counterexample:
  "mathFluency estimate96 = 96
   \<and> performanceScore roundOneCorrect = 96
   \<and> mathFluency (updateSkillEstimate estimate96 roundOneCorrect)
       = 6755399441055743 / 70368744177664
   \<and> mathFluency (updateSkillEstimate estimate96 roundOneCorrect)
       < min (mathFluency estimate96) (performanceScore roundOneCorrect)
   \<and> confidence estimate96 = 5
   \<and> confidence (updateSkillEstimate estimate96 roundOneCorrect) = 1"
  by (simp add: updateSkillEstimate_mathFluency updateSkillEstimate_confidence
      performanceScore_roundOneCorrect estimate96_def rnd_values)


lemma zeroSignal_accuracy: "zeroSignal m \<Longrightarrow> accuracy m = 0"
  by (simp add: zeroSignal_def accuracy_def fdiv_def)

lemma zeroSignal_performanceScore:
  "zeroSignal m \<Longrightarrow> performanceScore m = rnd (rnd (speedFactor m * rnd (2 / 5)) * 100)"
  by (simp add: performanceScore_def zeroSignal_accuracy fadd_def fmul_def)

lemma zeroSignal_performanceScore_range:
  assumes "zeroSignal m"
  shows "0 \<le> performanceScore m \<and> performanceScore m \<le> 40"
proof -
  let ?w = "3602879701896397 / 9007199254740992 :: real"
  have sp: "0 \<le> speedFactor m" "speedFactor m \<le> 1"
    using speedFactor_range [of m] by simp_all
  have "0 \<le> rnd (speedFactor m * ?w)"
    using sp(1) by (intro rnd_nonneg) simp
  then have lo: "0 \<le> rnd (rnd (speedFactor m * ?w) * 100)"
    by (intro rnd_nonneg) simp
  have "speedFactor m * ?w \<le> 1 * ?w"
    using sp(2) by (intro mult_right_mono) simp_all
  then have "rnd (speedFactor m * ?w) \<le> rnd ?w"
    by (intro rnd_mono) simp
  then have "rnd (speedFactor m * ?w) \<le> ?w"
    by (simp add: rnd_values)
  then have "rnd (rnd (speedFactor m * ?w) * 100) \<le> rnd (?w * 100)"
    by (intro rnd_mono) simp
  then have hi: "rnd (rnd (speedFactor m * ?w) * 100) \<le> 40"
    by (simp add: rnd_values)
  show ?thesis
    using lo hi by (simp add: zeroSignal_performanceScore [OF assms] rnd_value_3)
qed

text \<open>
  Claim C8, as the code has it. With 0 correct answers out of 0 the update is well
  defined: the accuracy is 0 (the divisor is \<open>max 1 0 = 1\<close>) and the performance
  score is a number between 0 and 40. The update is a step of the moving average
  all the same: \<open>mathFluency\<close> moves to \<open>0.7 * old + 0.3 * performanceScore\<close> up to
  rounding, and the confidence becomes \<open>min 1 (old + 0.1)\<close>. So an estimate with a
  confidence of at least 0 and below 1 is changed, and with a confidence of at
  least 0 and at most 0.8 a second zero-signal update changes it again.
\<close>

theorem C8_zero_signal_update:
  assumes "zeroSignal m"
  shows "accuracy m = 0
    \<and> 0 \<le> performanceScore m \<and> performanceScore m \<le> 40
    \<and> \<bar>mathFluency (updateSkillEstimate e m)
         - (7 / 10 * mathFluency e + 3 / 10 * performanceScore m)\<bar>
       \<le> roundingTolerance (mathFluency e) (performanceScore m)
    \<and> confidence (updateSkillEstimate e m) = min 1 (fadd (confidence e) (rnd 0.1))
    \<and> (0 \<le> confidence e \<and> confidence e < 1
         \<longrightarrow> confidence e < confidence (updateSkillEstimate e m)
           \<and> updateSkillEstimate e m \<noteq> e)
    \<and> (0 \<le> confidence e \<and> confidence e \<le> 8 / 10
         \<longrightarrow> updateSkillEstimate (updateSkillEstimate e m) m \<noteq> updateSkillEstimate e m)"
proof -
  have acc: "accuracy m = 0"
    using assms by (rule zeroSignal_accuracy)
  have rng: "0 \<le> performanceScore m \<and> performanceScore m \<le> 40"
    using assms by (rule zeroSignal_performanceScore_range)
  have near: "\<bar>mathFluency (updateSkillEstimate e m)
         - (7 / 10 * mathFluency e + 3 / 10 * performanceScore m)\<bar>
       \<le> roundingTolerance (mathFluency e) (performanceScore m)"
    by (rule updateSkillEstimate_near_average)
  have c1: "confidence (updateSkillEstimate e m) = min 1 (fadd (confidence e) (rnd 0.1))"
    by (simp add: updateSkillEstimate_def Let_def)
  have raised: "confidence x < confidence (updateSkillEstimate x m)"
    if "0 \<le> confidence x" and "confidence x < 1" for x
    using confidence_raised [OF that] by (simp only: updateSkillEstimate_confidence)
  have changed: "updateSkillEstimate x m \<noteq> x"
    if "0 \<le> confidence x" and "confidence x < 1" for x
    using raised [OF that] by auto
  have once: "0 \<le> confidence e \<and> confidence e < 1
      \<longrightarrow> confidence e < confidence (updateSkillEstimate e m) \<and> updateSkillEstimate e m \<noteq> e"
    using raised [of e] changed [of e] by blast
  have twice: "0 \<le> confidence e \<and> confidence e \<le> 8 / 10
      \<longrightarrow> updateSkillEstimate (updateSkillEstimate e m) m \<noteq> updateSkillEstimate e m"
  proof
    assume h: "0 \<le> confidence e \<and> confidence e \<le> 8 / 10"
    then have lt: "confidence e < confidence (updateSkillEstimate e m)"
      using raised [of e] by simp
    have "rnd (confidence e + rnd (1 / 10)) < 1"
      using h by (intro confidence_below_one) simp_all
    then have "confidence (updateSkillEstimate e m) < 1"
      by (simp add: updateSkillEstimate_confidence)
    moreover have "0 \<le> confidence (updateSkillEstimate e m)"
      using h lt by linarith
    ultimately show "updateSkillEstimate (updateSkillEstimate e m) m \<noteq> updateSkillEstimate e m"
      by (intro changed)
  qed
  show ?thesis
    using acc rng near c1 once twice by blast
qed

theorem C8_zero_signal_update_witness:
  "zeroSignal roundNoAnswers
   \<and> 0 \<le> confidence estimate50 \<and> confidence estimate50 < 1
   \<and> confidence estimate50 \<le> 8 / 10
   \<and> confidence estimate50 < confidence (updateSkillEstimate estimate50 roundNoAnswers)
   \<and> updateSkillEstimate estimate50 roundNoAnswers \<noteq> estimate50
   \<and> updateSkillEstimate (updateSkillEstimate estimate50 roundNoAnswers) roundNoAnswers
       \<noteq> updateSkillEstimate estimate50 roundNoAnswers"
proof -
  have z: "zeroSignal roundNoAnswers"
    by (simp add: zeroSignal_def roundNoAnswers_def)
  have h: "0 \<le> confidence estimate50 \<and> confidence estimate50 < 1
      \<and> confidence estimate50 \<le> 8 / 10"
    by (simp add: estimate50_def)
  show ?thesis
    using z h C8_zero_signal_update [OF z, of estimate50] by blast
qed

lemma performanceScore_roundNoAnswers: "performanceScore roundNoAnswers = 40"
  by (simp add: performanceScore_def accuracy_def speedFactor_def roundNoAnswers_def
      fadd_def fsub_def fmul_def fdiv_def rnd_values)

lemma performanceScore_roundNoAnswersSlow: "performanceScore roundNoAnswersSlow = 24"
  by (simp add: performanceScore_def accuracy_def speedFactor_def roundNoAnswersSlow_def
      fadd_def fsub_def fmul_def fdiv_def rnd_values)

text \<open>
  Claim C8 as stated fails: a zero-signal update of the estimate with
  \<open>mathFluency = 50\<close> and confidence 0.5 changes both fields, to 47 and to the
  double \<open>0.6\<close>, and a second update changes them again, to the doubles \<open>44.9\<close>
  and \<open>0.7\<close>.
\<close>

theorem C8_zero_signal_counterexample:
  "zeroSignal roundNoAnswers
   \<and> updateSkillEstimate estimate50 roundNoAnswers
      = \<lparr>workingMemory = 50, attention = 50, processingSpeed = 50,
         executiveFunction = 50, mathFluency = 47, confidence = rnd 0.6\<rparr>
   \<and> updateSkillEstimate (updateSkillEstimate estimate50 roundNoAnswers) roundNoAnswers
      = \<lparr>workingMemory = 50, attention = 50, processingSpeed = 50,
         executiveFunction = 50, mathFluency = rnd 44.9, confidence = rnd 0.7\<rparr>"
  by (simp add: zeroSignal_def updateSkillEstimate_def alpha_def Let_def
      performanceScore_roundNoAnswers estimate50_def fadd_def fsub_def fmul_def rnd_values)
    (simp add: roundNoAnswers_def)

text \<open>
  Nor is the estimate left alone where \<open>mathFluency\<close> equals the performance score
  and the confidence is 1: at 24 and 24 the update returns the double below 24
  (printed \<open>23.999999999999996\<close>).
\<close>

lemma zero_signal_at_equal_score:
  "zeroSignal roundNoAnswersSlow
   \<and> performanceScore roundNoAnswersSlow = mathFluency estimate24
   \<and> confidence (updateSkillEstimate estimate24 roundNoAnswersSlow) = confidence estimate24
   \<and> mathFluency (updateSkillEstimate estimate24 roundNoAnswersSlow)
       = 6755399441055743 / 281474976710656
   \<and> mathFluency (updateSkillEstimate estimate24 roundNoAnswersSlow) < mathFluency estimate24"
  by (simp add: zeroSignal_def updateSkillEstimate_mathFluency updateSkillEstimate_confidence
      performanceScore_roundNoAnswersSlow estimate24_def rnd_values)
    (simp add: roundNoAnswersSlow_def)

section \<open>Properties of the attention check system\<close>








lemma evaluateSessionQuality_flags [simp]:
  "qualityFlags (evaluateSessionQuality s) = sessionFlags s"
  by (simp add: evaluateSessionQuality_def Let_def)

lemma evaluateSessionQuality_passed [simp]:
  "attentionChecksPassed (evaluateSessionQuality s) = length (filter passed (checks s))"
  by (simp add: evaluateSessionQuality_def Let_def)

lemma evaluateSessionQuality_failed [simp]:
  "attentionChecksFailed (evaluateSessionQuality s) = length (filter (\<lambda>c. \<not> passed c) (checks s))"
  by (simp add: evaluateSessionQuality_def Let_def)

lemma hasCriticalFlag_iff:
  "list_ex (\<lambda>flag. flag \<in> set criticalFlags) flags \<longleftrightarrow>
     ''FAILED_ATTENTION_CHECKS'' \<in> set flags \<or> ''SUSPICIOUS_PATTERN'' \<in> set flags"
  by (auto simp add: list_ex_iff criticalFlags_def)

lemma evaluateSessionQuality_valid:
  "isValidSession (evaluateSessionQuality s) \<longleftrightarrow>
     sqAttentionScore (evaluateSessionQuality s) \<ge> 60
     \<and> ''FAILED_ATTENTION_CHECKS'' \<notin> set (sessionFlags s)
     \<and> ''SUSPICIOUS_PATTERN'' \<notin> set (sessionFlags s)"
  by (simp add: evaluateSessionQuality_def Let_def hasCriticalFlag_iff)

lemma sessionFlags_failed_iff:
  "''FAILED_ATTENTION_CHECKS'' \<in> set (sessionFlags s) \<longleftrightarrow>
     checks s \<noteq> [] \<and> length (filter passed (checks s)) < 2"
  by (simp add: sessionFlags_def MIN_ATTENTION_CHECKS_PASSED_def Let_def)


lemma js_round_nonpos: "x \<le> 0 \<Longrightarrow> js_round x \<le> 0"
proof -
  assume "x \<le> 0"
  then have "x + 1 / 2 < 1" by simp
  then have "\<lfloor>x + 1 / 2\<rfloor> < 1" by (simp add: floor_less_iff)
  then show ?thesis by (simp add: js_round_def)
qed

lemma evaluateSessionQuality_no_checks:
  "checks s = [] \<Longrightarrow> sqAttentionScore (evaluateSessionQuality s) = 0"
proof -
  assume "checks s = []"
  then have "sqAttentionScore (evaluateSessionQuality s)
      = max 0 (js_round (0 - real (length (sessionFlags s)) * 10))"
    by (simp add: evaluateSessionQuality_def Let_def)
  moreover have "js_round (0 - real (length (sessionFlags s)) * 10) \<le> 0"
    by (rule js_round_nonpos) simp
  ultimately show ?thesis by simp
qed

lemma filter_passed_complement:
  "length (filter (\<lambda>c. \<not> passed c) cs) = length cs - length (filter passed cs)"
  using sum_length_filter_compl [of passed cs] by simp

text \<open>
  Claim C1. A session is valid exactly when its attention score is at least 60 and
  its quality flags contain neither \<open>FAILED_ATTENTION_CHECKS\<close> nor
  \<open>SUSPICIOUS_PATTERN\<close>. With three recorded checks of which one passed, the result
  counts one passed and two failed checks, carries \<open>FAILED_ATTENTION_CHECKS\<close> and is
  not valid, whatever the recorded response times and interactions.
\<close>

theorem C1_session_validity:
  "(isValidSession (evaluateSessionQuality s) \<longleftrightarrow>
      sqAttentionScore (evaluateSessionQuality s) \<ge> 60
      \<and> ''FAILED_ATTENTION_CHECKS'' \<notin> set (qualityFlags (evaluateSessionQuality s))
      \<and> ''SUSPICIOUS_PATTERN'' \<notin> set (qualityFlags (evaluateSessionQuality s)))
   \<and> (length (checks s) = 3 \<and> length (filter passed (checks s)) = 1 \<longrightarrow>
        attentionChecksPassed (evaluateSessionQuality s) = 1
        \<and> attentionChecksFailed (evaluateSessionQuality s) = 2
        \<and> ''FAILED_ATTENTION_CHECKS'' \<in> set (qualityFlags (evaluateSessionQuality s))
        \<and> \<not> isValidSession (evaluateSessionQuality s))"
proof (intro conjI impI)
  show "isValidSession (evaluateSessionQuality s) \<longleftrightarrow>
      sqAttentionScore (evaluateSessionQuality s) \<ge> 60
      \<and> ''FAILED_ATTENTION_CHECKS'' \<notin> set (qualityFlags (evaluateSessionQuality s))
      \<and> ''SUSPICIOUS_PATTERN'' \<notin> set (qualityFlags (evaluateSessionQuality s))"
    by (simp add: evaluateSessionQuality_valid)
next
  assume h: "length (checks s) = 3 \<and> length (filter passed (checks s)) = 1"
  then have ne: "checks s \<noteq> []" by auto
  show "attentionChecksPassed (evaluateSessionQuality s) = 1"
    using h by simp
  show "attentionChecksFailed (evaluateSessionQuality s) = 2"
    using h by (simp add: filter_passed_complement)
  show flag: "''FAILED_ATTENTION_CHECKS'' \<in> set (qualityFlags (evaluateSessionQuality s))"
    using h ne by (simp add: sessionFlags_failed_iff)
  show "\<not> isValidSession (evaluateSessionQuality s)"
    using flag by (simp add: evaluateSessionQuality_valid)
qed

theorem C1_session_validity_witness:
  "length (checks threeChecksScenario) = 3
   \<and> length (filter passed (checks threeChecksScenario)) = 1
   \<and> attentionChecksPassed (evaluateSessionQuality threeChecksScenario) = 1
   \<and> attentionChecksFailed (evaluateSessionQuality threeChecksScenario) = 2
   \<and> ''FAILED_ATTENTION_CHECKS'' \<in> set (qualityFlags (evaluateSessionQuality threeChecksScenario))
   \<and> \<not> isValidSession (evaluateSessionQuality threeChecksScenario)"
proof -
  have h: "length (checks threeChecksScenario) = 3
      \<and> length (filter passed (checks threeChecksScenario)) = 1"
    by code_simp
  show ?thesis
    using h C1_session_validity [of threeChecksScenario] by simp
qed

text \<open>
  Claim C10. A session with fewer than two passed attention checks is never valid:
  without any check the score is 0, and with at least one check the flag
  \<open>FAILED_ATTENTION_CHECKS\<close> is raised. So a session whose only check was answered
  correctly is invalid.
\<close>

theorem C10_fewer_than_two_passed:
  assumes "length (filter passed (checks s)) < 2"
  shows "\<not> isValidSession (evaluateSessionQuality s)
    \<and> (checks s = [] \<longrightarrow> sqAttentionScore (evaluateSessionQuality s) = 0)
    \<and> (checks s \<noteq> [] \<longrightarrow>
         ''FAILED_ATTENTION_CHECKS'' \<in> set (qualityFlags (evaluateSessionQuality s)))"
proof (cases "checks s = []")
  case True
  then have "sqAttentionScore (evaluateSessionQuality s) = 0"
    by (rule evaluateSessionQuality_no_checks)
  with True show ?thesis
    by (simp add: evaluateSessionQuality_valid)
next
  case False
  with assms have "''FAILED_ATTENTION_CHECKS'' \<in> set (sessionFlags s)"
    by (simp add: sessionFlags_failed_iff)
  with False show ?thesis
    by (simp add: evaluateSessionQuality_valid)
qed

theorem C10_fewer_than_two_passed_witness:
  "length (filter passed (checks (snd (recordCheck newAttentionCheckSystem
       (AnswerStr ''Blue'') (AnswerStr ''Blue'') 1500 Simple 1000)))) = 1
   \<and> \<not> isValidSession (evaluateSessionQuality (snd (recordCheck newAttentionCheckSystem
       (AnswerStr ''Blue'') (AnswerStr ''Blue'') 1500 Simple 1000)))"
proof -
  have h: "length (filter passed (checks (snd (recordCheck newAttentionCheckSystem
       (AnswerStr ''Blue'') (AnswerStr ''Blue'') 1500 Simple 1000)))) = 1"
    by code_simp
  show ?thesis
    using h C10_fewer_than_two_passed [of "snd (recordCheck newAttentionCheckSystem
       (AnswerStr ''Blue'') (AnswerStr ''Blue'') 1500 Simple 1000)"]
    by simp
qed





section \<open>Properties of the pseudonymous identifiers\<close>

lemma upperDigit_eq:
  "d < 36 \<Longrightarrow> upperDigit d = (if d < 10 then char_of (48 + d) else char_of (55 + d))"
  by (simp add: upperDigit_def upperChar_def digitChar_def Let_def)

lemma upperDigit_inj: "a < 36 \<Longrightarrow> b < 36 \<Longrightarrow> upperDigit a = upperDigit b \<Longrightarrow> a = b"
  by (simp add: upperDigit_eq split: if_splits)

lemma upper36_small: "n < 36 \<Longrightarrow> upper36 n = [upperDigit n]"
  by (simp add: upper36_def toUpperCase_def upperDigit_def toStringRadix.simps [of 36 n])

lemma upper36_large:
  "36 \<le> n \<Longrightarrow> upper36 n = upper36 (n div 36) @ [upperDigit (n mod 36)]"
  by (simp add: upper36_def toUpperCase_def upperDigit_def toStringRadix.simps [of 36 n])

lemma upper36_nonempty: "upper36 n \<noteq> []"
  by (cases "n < 36") (simp_all add: upper36_small upper36_large)

lemma upper36_inj: "upper36 a = upper36 b \<Longrightarrow> a = b"
proof (induction a arbitrary: b rule: less_induct)
  case (less a)
  show ?case
  proof (cases "a < 36")
    case a_small: True
    show ?thesis
    proof (cases "b < 36")
      case True
      with a_small less.prems show ?thesis
        by (simp add: upper36_small upperDigit_inj)
    next
      case False
      with a_small less.prems upper36_nonempty [of "b div 36"] show ?thesis
        by (simp add: upper36_small upper36_large)
    qed
  next
    case a_large: False
    show ?thesis
    proof (cases "b < 36")
      case True
      with a_large less.prems upper36_nonempty [of "a div 36"] show ?thesis
        by (simp add: upper36_small upper36_large)
    next
      case False
      with a_large less.prems
      have hd_eq: "upper36 (a div 36) = upper36 (b div 36)"
        and last_eq: "upperDigit (a mod 36) = upperDigit (b mod 36)"
        by (simp_all add: upper36_large)
      from a_large have "a div 36 < a" by simp
      then have d: "a div 36 = b div 36"
        using hd_eq by (rule less.IH)
      have m: "a mod 36 = b mod 36"
        using last_eq by (intro upperDigit_inj) simp_all
      from d m show ?thesis
        by (metis div_mult_mod_eq)
    qed
  qed
qed

lemma hashUserId_eq_iff:
  "hashUserId u s1 = hashUserId u s2 \<longleftrightarrow> absHash (u @ s1) = absHash (u @ s2)"
  using upper36_inj [of "absHash (u @ s1)" "absHash (u @ s2)"]
  by (auto simp add: hashUserId_def upper36_def)

lemma hashStep_collision:
  "hashStep (hashStep h CHR ''a'') CHR ''n'' = hashStep (hashStep h CHR ''c'') CHR ''0''"
  by (simp add: hashStep_def push_bit_eq_mult algebra_simps)

lemma hashCode_collision: "hashCode (u @ ''an'' @ v) = hashCode (u @ ''c0'' @ v)"
  by (simp add: hashCode_def hashStep_collision)

lemma generatePseudonymousId_new:
  "fst (generatePseudonymousId newResearchDataCollector u s t) = hashUserId u s"
  by (simp add: generatePseudonymousId_def newResearchDataCollector_def Let_def)

lemma generatePseudonymousId_memo:
  "generatePseudonymousId (snd (generatePseudonymousId c u s1 t1)) u s2 t2
     = (fst (generatePseudonymousId c u s1 t1), snd (generatePseudonymousId c u s1 t1))"
  by (simp add: generatePseudonymousId_def Let_def split: option.splits)

text \<open>
  Claim C9, as the code has it. On one collector a second call for the same user
  returns the pseudonym of the first call and leaves the collector as it is,
  whatever salt would have been drawn. A new collector returns the hash of the user
  id with its own salt; two new collectors give different pseudonyms for the same
  user exactly when the absolute values of the two 32-bit hashes differ, so that
  different salts can give the same pseudonym.
\<close>

theorem C9_pseudonym_memo_and_hash:
  "fst (generatePseudonymousId (snd (generatePseudonymousId c u s1 t1)) u s2 t2)
     = fst (generatePseudonymousId c u s1 t1)
   \<and> snd (generatePseudonymousId (snd (generatePseudonymousId c u s1 t1)) u s2 t2)
     = snd (generatePseudonymousId c u s1 t1)
   \<and> fst (generatePseudonymousId newResearchDataCollector u s1 t1) = hashUserId u s1
   \<and> (fst (generatePseudonymousId newResearchDataCollector u s1 t1)
        \<noteq> fst (generatePseudonymousId newResearchDataCollector u s2 t2)
      \<longleftrightarrow> absHash (u @ s1) \<noteq> absHash (u @ s2))"
  by (simp add: generatePseudonymousId_memo generatePseudonymousId_new hashUserId_eq_iff)

text \<open>
  Claim C9 as stated fails: two new collectors whose salts differ in two adjacent
  characters (\<open>an\<close> against \<open>c0\<close>) give the same pseudonym for the same user.
\<close>

theorem C9_different_salt_counterexample:
  "''k8n2x0q4lan7c1m9z3p5t6'' \<noteq> ''k8n2x0q4lc07c1m9z3p5t6''
   \<and> salt (the (pseudonymMap (snd (generatePseudonymousId newResearchDataCollector
        ''user-42'' ''k8n2x0q4lan7c1m9z3p5t6'' 1000)) ''user-42''))
      = ''k8n2x0q4lan7c1m9z3p5t6''
   \<and> salt (the (pseudonymMap (snd (generatePseudonymousId newResearchDataCollector
        ''user-42'' ''k8n2x0q4lc07c1m9z3p5t6'' 2000)) ''user-42''))
      = ''k8n2x0q4lc07c1m9z3p5t6''
   \<and> fst (generatePseudonymousId newResearchDataCollector
        ''user-42'' ''k8n2x0q4lan7c1m9z3p5t6'' 1000)
      = fst (generatePseudonymousId newResearchDataCollector
        ''user-42'' ''k8n2x0q4lc07c1m9z3p5t6'' 2000)"
proof -
  have "hashCode (''user-42k8n2x0q4l'' @ ''an'' @ ''7c1m9z3p5t6'')
      = hashCode (''user-42k8n2x0q4l'' @ ''c0'' @ ''7c1m9z3p5t6'')"
    by (rule hashCode_collision)
  then have "absHash (''user-42'' @ ''k8n2x0q4lan7c1m9z3p5t6'')
      = absHash (''user-42'' @ ''k8n2x0q4lc07c1m9z3p5t6'')"
    by (simp add: absHash_def)
  then have "hashUserId ''user-42'' ''k8n2x0q4lan7c1m9z3p5t6''
      = hashUserId ''user-42'' ''k8n2x0q4lc07c1m9z3p5t6''"
    by (simp only: hashUserId_eq_iff)
  then show ?thesis
    by (simp add: generatePseudonymousId_def newResearchDataCollector_def Let_def)
qed

section \<open>Properties of the engagement trackers\<close>

subsection \<open>The snapshot buffer\<close>

lemma moveMouse_snapshots [simp]:
  "snapshots (moveMouse s x y) = snapshots s"
  "lastSnapshotTime (moveMouse s x y) = lastSnapshotTime s"
  "isFocused (moveMouse s x y) = isFocused s"
  by (simp_all add: moveMouse_def Let_def)

lemma newSnapshot_moveMouse [simp]:
  "newSnapshot (moveMouse s x y) x' y' now = newSnapshot s x' y' now"
  by (simp add: newSnapshot_def)

lemma trackMouse_snapshots:
  "snapshots (trackMouse s x y now) =
     (if now - lastSnapshotTime s < 2000 then snapshots s
      else if length (snapshots s) \<ge> 30 then tl (snapshots s) @ [newSnapshot s x y now]
      else snapshots s @ [newSnapshot s x y now])"
  by (cases "snapshots s") (simp_all add: trackMouse_def SNAPSHOT_INTERVAL_def Let_def)

lemma markLast_length [simp]: "length (markLast snaps) = length snaps"
  by (simp add: markLast_def)

lemma step_snapshots_bound:
  "length (snapshots s) \<le> 30 \<Longrightarrow> length (snapshots (step s ev)) \<le> 30"
  by (cases ev)
    (simp_all add: trackMouse_snapshots trackInteraction_def handleFocus_def handleBlur_def
      reset_def newEngagementTracker_def)

lemma run_snapshots_bound:
  "length (snapshots s) \<le> 30 \<Longrightarrow> length (snapshots (run s evs)) \<le> 30"
  unfolding run_def
  by (induction evs arbitrary: s) (simp_all add: step_snapshots_bound)

lemma aMoveMouse_snapshots [simp]:
  "aSnapshots (aMoveMouse s x y) = aSnapshots s"
  "aLastSnapshotTime (aMoveMouse s x y) = aLastSnapshotTime s"
  by (simp_all add: aMoveMouse_def Let_def)

lemma aTrackMouse_snapshots:
  "aSnapshots (aTrackMouse s et x y now now2) =
     (if now - aLastSnapshotTime s < 2000 then aSnapshots s
      else if length (aSnapshots s) \<ge> 30
      then tl (aSnapshots s) @ [aNewSnapshot (aMoveMouse s x y) et x y False now now2]
      else aSnapshots s @ [aNewSnapshot (aMoveMouse s x y) et x y False now now2])"
  by (cases "aSnapshots s")
    (simp_all add: aTrackMouse_def takeSnapshot_def SNAPSHOT_INTERVAL_def Let_def)

lemma aMarkLast_length [simp]: "length (aMarkLast snaps) = length snaps"
  by (simp add: aMarkLast_def)

lemma aStep_snapshots_bound:
  "length (aSnapshots s) \<le> 30 \<Longrightarrow> length (aSnapshots (aStep s ev)) \<le> 30"
  by (cases ev)
    (simp_all add: aTrackMouse_snapshots aTrackInteraction_def aHandleFocus_def
      aHandleBlur_def updateAudioMetrics_def updateEmotionalState_def setThresholds_def
      enableEyeTracking_def disableEyeTracking_def aReset_def Let_def)

lemma aRun_snapshots_bound:
  "length (aSnapshots s) \<le> 30 \<Longrightarrow> length (aSnapshots (aRun s evs)) \<le> 30"
  unfolding aRun_def
  by (induction evs arbitrary: s) (simp_all add: aStep_snapshots_bound)

lemma trackMouse_lastSnapshotTime:
  "lastSnapshotTime (trackMouse s x y now) =
     (if now - lastSnapshotTime s < 2000 then lastSnapshotTime s else now)"
  by (simp add: trackMouse_def SNAPSHOT_INTERVAL_def Let_def)

lemma run_snoc: "run s (evs @ [ev]) = step (run s evs) ev"
  by (simp add: run_def)

lemma spacedMoves_Suc:
  "spacedMoves (Suc n) = spacedMoves n @ [TrackMouse 0 0 (2000 * int (Suc n))]"
  by (simp add: spacedMoves_def)

lemma tl_map_upt: "tl (map f [a..<b]) = map f [Suc a..<b]"
  by (cases "a < b") (simp_all add: upt_conv_Cons)

lemma spacedMoves_run:
  "map timestamp (snapshots (run (newEngagementTracker t1 t2 t3) (spacedMoves n)))
     = map (\<lambda>i. 2000 * int i) [Suc (n - 30)..<Suc n]
   \<and> lastSnapshotTime (run (newEngagementTracker t1 t2 t3) (spacedMoves n)) = 2000 * int n"
proof (induction n)
  case 0
  then show ?case
    by (simp add: spacedMoves_def run_def newEngagementTracker_def)
next
  case (Suc n)
  let ?s = "run (newEngagementTracker t1 t2 t3) (spacedMoves n)"
  from Suc have ih: "map timestamp (snapshots ?s) = map (\<lambda>i. 2000 * int i) [Suc (n - 30)..<Suc n]"
    and lt: "lastSnapshotTime ?s = 2000 * int n"
    by simp_all
  from ih have "length (snapshots ?s) = length (map (\<lambda>i. 2000 * int i) [Suc (n - 30)..<Suc n])"
    by (metis length_map)
  then have len: "length (snapshots ?s) = min n 30"
    by (simp only: length_map length_upt)
  show ?case
  proof (cases "n < 30")
    case True
    with len have "\<not> 30 \<le> length (snapshots ?s)" by simp
    with ih lt True show ?thesis
      by (simp add: spacedMoves_Suc run_snoc trackMouse_snapshots trackMouse_lastSnapshotTime
          newSnapshot_def del: upt_Suc) (simp add: upt_Suc_append)
  next
    case False
    with len have full: "30 \<le> length (snapshots ?s)" by simp
    from False have idx: "Suc (Suc n - 30) = Suc (Suc (n - 30))" by simp
    have "map timestamp (tl (snapshots ?s)) = map (\<lambda>i. 2000 * int i) [Suc (Suc (n - 30))..<Suc n]"
      using ih by (simp add: map_tl tl_map_upt del: upt_Suc)
    with lt full idx show ?thesis
      by (simp add: spacedMoves_Suc run_snoc trackMouse_snapshots trackMouse_lastSnapshotTime
          newSnapshot_def del: upt_Suc) (simp add: upt_Suc_append)
  qed
qed

lemma aTrackMouse_lastSnapshotTime:
  "aLastSnapshotTime (aTrackMouse s et x y now now2) =
     (if now - aLastSnapshotTime s < 2000 then aLastSnapshotTime s else now)"
  by (simp add: aTrackMouse_def takeSnapshot_def SNAPSHOT_INTERVAL_def Let_def)

lemma aRun_snoc: "aRun s (evs @ [ev]) = aStep (aRun s evs) ev"
  by (simp add: aRun_def)

lemma aSpacedMoves_Suc:
  "aSpacedMoves (Suc n) = aSpacedMoves n
     @ [ATrackMouse idleEyeTracker 0 0 (2000 * int (Suc n)) (2000 * int (Suc n))]"
  by (simp add: aSpacedMoves_def)

lemma aNewSnapshot_timestamp [simp]:
  "asTimestamp (aNewSnapshot s et x y i now now2) = now"
  by (simp add: aNewSnapshot_def Let_def)

lemma aSpacedMoves_run:
  "map asTimestamp (aSnapshots (aRun (newAdvTracker t1 t2 t3) (aSpacedMoves n)))
     = map (\<lambda>i. 2000 * int i) [Suc (n - 30)..<Suc n]
   \<and> aLastSnapshotTime (aRun (newAdvTracker t1 t2 t3) (aSpacedMoves n)) = 2000 * int n"
proof (induction n)
  case 0
  then show ?case
    by (simp add: aSpacedMoves_def aRun_def newAdvTracker_def)
next
  case (Suc n)
  let ?s = "aRun (newAdvTracker t1 t2 t3) (aSpacedMoves n)"
  from Suc have ih: "map asTimestamp (aSnapshots ?s) = map (\<lambda>i. 2000 * int i) [Suc (n - 30)..<Suc n]"
    and lt: "aLastSnapshotTime ?s = 2000 * int n"
    by simp_all
  from ih have "length (aSnapshots ?s) = length (map (\<lambda>i. 2000 * int i) [Suc (n - 30)..<Suc n])"
    by (metis length_map)
  then have len: "length (aSnapshots ?s) = min n 30"
    by (simp only: length_map length_upt)
  show ?case
  proof (cases "n < 30")
    case True
    with len have "\<not> 30 \<le> length (aSnapshots ?s)" by simp
    with ih lt True show ?thesis
      by (simp add: aSpacedMoves_Suc aRun_snoc aTrackMouse_snapshots aTrackMouse_lastSnapshotTime
          del: upt_Suc) (simp add: upt_Suc_append)
  next
    case False
    with len have full: "30 \<le> length (aSnapshots ?s)" by simp
    from False have idx: "Suc (Suc n - 30) = Suc (Suc (n - 30))" by simp
    have "map asTimestamp (tl (aSnapshots ?s)) = map (\<lambda>i. 2000 * int i) [Suc (Suc (n - 30))..<Suc n]"
      using ih by (simp add: map_tl tl_map_upt del: upt_Suc)
    with lt full idx show ?thesis
      by (simp add: aSpacedMoves_Suc aRun_snoc aTrackMouse_snapshots aTrackMouse_lastSnapshotTime
          del: upt_Suc) (simp add: upt_Suc_append)
  qed
qed

text \<open>
  Claim C4. After any sequence of calls on a new tracker the snapshot buffer holds
  at most 30 snapshots. A call of \<open>trackMouse\<close> less than 2000 ms after the last
  snapshot leaves the buffer as it is; otherwise it appends the new snapshot, and
  when the buffer was full the snapshot removed is the oldest one, at the head.
  Both hold for the base tracker and for the advanced tracker.
\<close>

theorem C4_snapshot_buffer:
  "length (snapshots (run (newEngagementTracker t1 t2 t3) evs)) \<le> 30
   \<and> snapshots (trackMouse (run (newEngagementTracker t1 t2 t3) evs) x y now) =
       (let s = run (newEngagementTracker t1 t2 t3) evs
        in if now - lastSnapshotTime s < 2000 then snapshots s
           else if length (snapshots s) = 30
           then tl (snapshots s) @ [newSnapshot s x y now]
           else snapshots s @ [newSnapshot s x y now])
   \<and> length (aSnapshots (aRun (newAdvTracker u1 u2 u3) aevs)) \<le> 30
   \<and> aSnapshots (aTrackMouse (aRun (newAdvTracker u1 u2 u3) aevs) et x y now now2) =
       (let s = aRun (newAdvTracker u1 u2 u3) aevs
        in if now - aLastSnapshotTime s < 2000 then aSnapshots s
           else if length (aSnapshots s) = 30
           then tl (aSnapshots s) @ [aNewSnapshot (aMoveMouse s x y) et x y False now now2]
           else aSnapshots s @ [aNewSnapshot (aMoveMouse s x y) et x y False now now2])"
proof -
  have b: "length (snapshots (run (newEngagementTracker t1 t2 t3) evs)) \<le> 30"
    by (rule run_snapshots_bound) (simp add: newEngagementTracker_def)
  have a: "length (aSnapshots (aRun (newAdvTracker u1 u2 u3) aevs)) \<le> 30"
    by (rule aRun_snapshots_bound) (simp add: newAdvTracker_def)
  show ?thesis
    using a b by (simp add: trackMouse_snapshots aTrackMouse_snapshots Let_def)
qed

theorem C4_snapshot_buffer_witness:
  "length (snapshots (run (newEngagementTracker 0 0 0) (spacedMoves 30))) = 30
   \<and> lastSnapshotTime (run (newEngagementTracker 0 0 0) (spacedMoves 30)) = 60000
   \<and> snapshots (trackMouse (run (newEngagementTracker 0 0 0) (spacedMoves 30)) 7 9 62000)
      = tl (snapshots (run (newEngagementTracker 0 0 0) (spacedMoves 30)))
        @ [newSnapshot (run (newEngagementTracker 0 0 0) (spacedMoves 30)) 7 9 62000]
   \<and> length (aSnapshots (aRun (newAdvTracker 0 0 0) (aSpacedMoves 30))) = 30
   \<and> aLastSnapshotTime (aRun (newAdvTracker 0 0 0) (aSpacedMoves 30)) = 60000
   \<and> aSnapshots (aTrackMouse (aRun (newAdvTracker 0 0 0) (aSpacedMoves 30))
        idleEyeTracker 7 9 62000 62001)
      = tl (aSnapshots (aRun (newAdvTracker 0 0 0) (aSpacedMoves 30)))
        @ [aNewSnapshot (aMoveMouse (aRun (newAdvTracker 0 0 0) (aSpacedMoves 30)) 7 9)
             idleEyeTracker 7 9 False 62000 62001]"
proof -
  have b: "map timestamp (snapshots (run (newEngagementTracker 0 0 0) (spacedMoves 30)))
        = map (\<lambda>i. 2000 * int i) [Suc (30 - 30)..<Suc 30]
      \<and> lastSnapshotTime (run (newEngagementTracker 0 0 0) (spacedMoves 30)) = 2000 * int 30"
    by (rule spacedMoves_run)
  then have "length (map timestamp (snapshots (run (newEngagementTracker 0 0 0) (spacedMoves 30))))
      = length (map (\<lambda>i. 2000 * int i) [Suc (30 - 30)..<Suc 30])"
    by (simp only:)
  then have bl: "length (snapshots (run (newEngagementTracker 0 0 0) (spacedMoves 30))) = 30"
    by (simp only: length_map length_upt)
  have a: "map asTimestamp (aSnapshots (aRun (newAdvTracker 0 0 0) (aSpacedMoves 30)))
        = map (\<lambda>i. 2000 * int i) [Suc (30 - 30)..<Suc 30]
      \<and> aLastSnapshotTime (aRun (newAdvTracker 0 0 0) (aSpacedMoves 30)) = 2000 * int 30"
    by (rule aSpacedMoves_run)
  then have "length (map asTimestamp (aSnapshots (aRun (newAdvTracker 0 0 0) (aSpacedMoves 30))))
      = length (map (\<lambda>i. 2000 * int i) [Suc (30 - 30)..<Suc 30])"
    by (simp only:)
  then have al: "length (aSnapshots (aRun (newAdvTracker 0 0 0) (aSpacedMoves 30))) = 30"
    by (simp only: length_map length_upt)
  show ?thesis
    using b bl a al
      C4_snapshot_buffer [of 0 0 0 "spacedMoves 30" 7 9 62000 0 0 0 "aSpacedMoves 30"
        idleEyeTracker 62001]
    by (simp add: Let_def)
qed

subsection \<open>The engagement level\<close>

text \<open>
  Claim C5. \<open>getMetrics\<close> of the advanced tracker classifies the scores it has
  computed (the attention score and the engagement score before they are rounded
  for the returned record, and the stored frustration level) against the thresholds
  of the tracker: critical when one of the three breaches its critical threshold;
  otherwise low when one breaches its minimum or maximum threshold; otherwise high
  when both scores are at least 70; otherwise medium.
\<close>

theorem C5_engagement_level:
  "amAttentionScore (aGetMetrics s et now) = js_round (computedAttentionScore s et now)
   \<and> amEngagementScore (aGetMetrics s et now) = js_round (computedEngagementScore s et now)
   \<and> engagementLevel (aGetMetrics s et now) =
       (if computedAttentionScore s et now < criticalAttentionScore (thresholds s)
           \<or> computedEngagementScore s et now < criticalEngagementScore (thresholds s)
           \<or> frustrationLevel s > criticalFrustrationLevel (thresholds s)
        then Critical
        else if computedAttentionScore s et now < minAttentionScore (thresholds s)
           \<or> computedEngagementScore s et now < minEngagementScore (thresholds s)
           \<or> frustrationLevel s > maxFrustrationLevel (thresholds s)
        then Low
        else if computedEngagementScore s et now \<ge> 70 \<and> computedAttentionScore s et now \<ge> 70
        then High
        else Medium)
   \<and> (engagementLevel (aGetMetrics s et now) = Critical \<longleftrightarrow>
        computedAttentionScore s et now < criticalAttentionScore (thresholds s)
        \<or> computedEngagementScore s et now < criticalEngagementScore (thresholds s)
        \<or> frustrationLevel s > criticalFrustrationLevel (thresholds s))
   \<and> (engagementLevel (aGetMetrics s et now) = High \<longleftrightarrow>
        criticalAttentionScore (thresholds s) \<le> computedAttentionScore s et now
        \<and> criticalEngagementScore (thresholds s) \<le> computedEngagementScore s et now
        \<and> frustrationLevel s \<le> criticalFrustrationLevel (thresholds s)
        \<and> minAttentionScore (thresholds s) \<le> computedAttentionScore s et now
        \<and> minEngagementScore (thresholds s) \<le> computedEngagementScore s et now
        \<and> frustrationLevel s \<le> maxFrustrationLevel (thresholds s)
        \<and> 70 \<le> computedEngagementScore s et now
        \<and> 70 \<le> computedAttentionScore s et now)"
  by (auto simp add: aGetMetrics_def classify_def Let_def)

subsection \<open>The range of the scores\<close>

lemma js_round_range: "0 \<le> x \<Longrightarrow> x \<le> 100 \<Longrightarrow> 0 \<le> js_round x \<and> js_round x \<le> 100"
proof -
  assume lo: "0 \<le> x" and hi: "x \<le> 100"
  from lo have "0 \<le> \<lfloor>x + 1 / 2\<rfloor>" by simp
  moreover from hi have "x + 1 / 2 < 101" by simp
  then have "\<lfloor>x + 1 / 2\<rfloor> < 101" by (simp add: floor_less_iff)
  ultimately show ?thesis by (simp add: js_round_def)
qed

lemma js_round_upper: "x \<le> 100 \<Longrightarrow> js_round x \<le> 100"
proof -
  assume "x \<le> 100"
  then have "x + 1 / 2 < 101" by simp
  then have "\<lfloor>x + 1 / 2\<rfloor> < 101" by (simp add: floor_less_iff)
  then show ?thesis by (simp add: js_round_def)
qed

lemma focusScore_range:
  "0 \<le> focused \<Longrightarrow> 0 \<le> focusScore focused totalTime \<and> focusScore focused totalTime \<le> 100"
  by (simp add: focusScore_def Let_def)

lemma interactionRate_nonneg: "0 \<le> interactionRate n totalTime"
  by (simp add: interactionRate_def)

lemma mouseActivity_range: "0 \<le> d \<Longrightarrow> 0 \<le> mouseActivity d \<and> mouseActivity d \<le> 100"
  by (simp add: mouseActivity_def)

lemma mouseDistance_nonneg: "0 \<le> mouseDistance p x y"
  by (simp add: mouseDistance_def)

lemma trackerInv_step:
  "trackerInv t s \<Longrightarrow> sorted (t # readings ev) \<Longrightarrow> trackerInv (last (t # readings ev)) (step s ev)"
  using mouseDistance_nonneg [of "lastMousePos s"]
  by (cases ev)
    (auto simp add: trackerInv_def trackMouse_def moveMouse_def trackInteraction_def
      handleFocus_def handleBlur_def reset_def newEngagementTracker_def Let_def
      intro: add_nonneg_nonneg)

lemma trackerInv_run:
  "trackerInv t s \<Longrightarrow> sorted (t # concat (map readings evs) @ [now])
     \<Longrightarrow> \<exists>t'. t' \<le> now \<and> trackerInv t' (run s evs)"
proof (induction evs arbitrary: t s)
  case Nil
  then show ?case by (auto simp add: run_def)
next
  case (Cons ev evs)
  let ?t = "last (t # readings ev)"
  from Cons.prems(2) have s1: "sorted (t # readings ev)"
    by (simp add: sorted_append)
  have inv: "trackerInv ?t (step s ev)"
    using Cons.prems(1) s1 by (rule trackerInv_step)
  from Cons.prems(2) have "sorted ((t # readings ev) @ concat (map readings evs) @ [now])"
    by simp
  then have "sorted (?t # concat (map readings evs) @ [now])"
    by (metis append_butlast_last_id list.distinct(1) sorted_append append_Cons append_Nil
        append.assoc)
  from Cons.IH [OF inv this] show ?case
    by (simp add: run_def)
qed

lemma getMetrics_range:
  assumes "trackerInv t s" and "t \<le> now"
  shows "0 \<le> attentionScore (getMetrics s now) \<and> attentionScore (getMetrics s now) \<le> 100
    \<and> 0 \<le> engagementScore (getMetrics s now) \<and> engagementScore (getMetrics s now) \<le> 100"
proof -
  let ?total = "now - startTime s"
  let ?att = "focusScore (currentFocusTime s now) ?total"
  let ?rate = "interactionRate (interactionCount s) ?total"
  let ?eng = "min 100 (?att * 0.4 + min 100 (?rate * 10) * 0.3
      + mouseActivity (totalMouseDistance s) * 0.3)"
  have foc: "0 \<le> currentFocusTime s now"
    using assms by (simp add: currentFocusTime_def trackerInv_def)
  have att: "0 \<le> ?att \<and> ?att \<le> 100"
    using foc by (rule focusScore_range)
  have rate: "0 \<le> min 100 (?rate * 10)"
    using interactionRate_nonneg [of "interactionCount s" ?total] by simp
  have mouse: "0 \<le> mouseActivity (totalMouseDistance s)"
    using assms mouseActivity_range by (simp add: trackerInv_def)
  have eng: "0 \<le> ?eng \<and> ?eng \<le> 100"
    using att rate mouse by simp
  have "attentionScore (getMetrics s now) = js_round ?att"
    and "engagementScore (getMetrics s now) = js_round ?eng"
    by (simp_all add: getMetrics_def Let_def)
  then show ?thesis
    using js_round_range [of ?att] js_round_range [of ?eng] att eng by simp
qed

lemma eyeAttentionScore_range: "0 \<le> eyeAttentionScore et \<and> eyeAttentionScore et \<le> 100"
  unfolding eyeAttentionScore_def Let_def
  by (rule js_round_range) simp_all

lemma eyeTrackingScore_range: "0 \<le> eyeTrackingScore s et \<and> eyeTrackingScore s et \<le> 100"
  using eyeAttentionScore_range [of et] by (simp add: eyeTrackingScore_def)

lemma aTrackerInv_step:
  "aTrackerInv t s \<Longrightarrow> sorted (t # aReadings ev)
     \<Longrightarrow> aTrackerInv (last (t # aReadings ev)) (aStep s ev)"
  using mouseDistance_nonneg [of "aLastMousePos s"]
  by (cases ev)
    (auto simp add: aTrackerInv_def aTrackMouse_def takeSnapshot_def aMoveMouse_def
      aTrackInteraction_def aHandleFocus_def aHandleBlur_def updateAudioMetrics_def
      updateEmotionalState_def setThresholds_def enableEyeTracking_def
      disableEyeTracking_def aReset_def Let_def
      intro: add_nonneg_nonneg)

lemma aTrackerInv_run:
  "aTrackerInv t s \<Longrightarrow> sorted (t # concat (map aReadings evs) @ [now])
     \<Longrightarrow> \<exists>t'. t' \<le> now \<and> aTrackerInv t' (aRun s evs)"
proof (induction evs arbitrary: t s)
  case Nil
  then show ?case by (auto simp add: aRun_def)
next
  case (Cons ev evs)
  let ?t = "last (t # aReadings ev)"
  from Cons.prems(2) have s1: "sorted (t # aReadings ev)"
    by (simp add: sorted_append)
  have inv: "aTrackerInv ?t (aStep s ev)"
    using Cons.prems(1) s1 by (rule aTrackerInv_step)
  from Cons.prems(2) have "sorted ((t # aReadings ev) @ concat (map aReadings evs) @ [now])"
    by simp
  then have "sorted (?t # concat (map aReadings evs) @ [now])"
    by (metis append_butlast_last_id list.distinct(1) sorted_append append_Cons append_Nil
        append.assoc)
  from Cons.IH [OF inv this] show ?case
    by (simp add: aRun_def)
qed

lemma computedAttentionScore_range:
  assumes "aTrackerInv t s" and "t \<le> now"
  shows "0 \<le> computedAttentionScore s et now \<and> computedAttentionScore s et now \<le> 100"
proof -
  have "0 \<le> aCurrentFocusTime s now"
    using assms by (simp add: aCurrentFocusTime_def aTrackerInv_def)
  then have base: "0 \<le> focusScore (aCurrentFocusTime s now) (now - aStartTime s)
      \<and> focusScore (aCurrentFocusTime s now) (now - aStartTime s) \<le> 100"
    by (rule focusScore_range)
  then show ?thesis
    using eyeTrackingScore_range [of s et]
    by (simp add: computedAttentionScore_def Let_def)
qed

lemma computedEngagementScore_upper: "computedEngagementScore s et now \<le> 100"
  by (simp add: computedEngagementScore_def Let_def)

lemma computedEngagementScore_lower:
  assumes "aTrackerInv t s" and "t \<le> now"
    and "0 \<le> audioEngagementScore s" and "frustrationLevel s \<le> 100"
  shows "0 \<le> computedEngagementScore s et now"
proof -
  have att: "0 \<le> computedAttentionScore s et now"
    using computedAttentionScore_range [OF assms(1,2)] by simp
  have rate: "0 \<le> min 100 (interactionRate (aInteractionCount s) (now - aStartTime s) * 10)"
    using interactionRate_nonneg [of "aInteractionCount s" "now - aStartTime s"] by simp
  have mouse: "0 \<le> mouseActivity (aTotalMouseDistance s)"
    using assms(1) mouseActivity_range by (simp add: aTrackerInv_def)
  show ?thesis
    using att rate mouse assms(3,4)
    by (simp add: computedEngagementScore_def Let_def)
qed

lemma aGetMetrics_scores:
  "amAttentionScore (aGetMetrics s et now) = js_round (computedAttentionScore s et now)"
  "amEngagementScore (aGetMetrics s et now) = js_round (computedEngagementScore s et now)"
  by (simp_all add: aGetMetrics_def Let_def)

lemma js_round_nonneg: "0 \<le> x \<Longrightarrow> 0 \<le> js_round x"
  by (simp add: js_round_def)

text \<open>
  Claim C2, as the code has it. The clock not going back, after any sequence of
  calls on a new tracker the base tracker returns both scores within 0 and 100. The
  advanced tracker returns an attention score within 0 and 100 and an engagement
  score of at most 100; its engagement score is at least 0 when the stored audio
  engagement score is not negative and the stored frustration level is at most 100,
  as they are when both are within 0 and 100.
\<close>

theorem C2_score_ranges:
  assumes "clockOk [t1, t2, t3] evs now"
    and "aClockOk [u1, u2, u3] aevs anow"
  shows "0 \<le> attentionScore (getMetrics (run (newEngagementTracker t1 t2 t3) evs) now)
    \<and> attentionScore (getMetrics (run (newEngagementTracker t1 t2 t3) evs) now) \<le> 100
    \<and> 0 \<le> engagementScore (getMetrics (run (newEngagementTracker t1 t2 t3) evs) now)
    \<and> engagementScore (getMetrics (run (newEngagementTracker t1 t2 t3) evs) now) \<le> 100
    \<and> 0 \<le> amAttentionScore (aGetMetrics (aRun (newAdvTracker u1 u2 u3) aevs) et anow)
    \<and> amAttentionScore (aGetMetrics (aRun (newAdvTracker u1 u2 u3) aevs) et anow) \<le> 100
    \<and> amEngagementScore (aGetMetrics (aRun (newAdvTracker u1 u2 u3) aevs) et anow) \<le> 100
    \<and> (0 \<le> audioEngagementScore (aRun (newAdvTracker u1 u2 u3) aevs)
         \<and> frustrationLevel (aRun (newAdvTracker u1 u2 u3) aevs) \<le> 100
       \<longrightarrow> 0 \<le> amEngagementScore (aGetMetrics (aRun (newAdvTracker u1 u2 u3) aevs) et anow))"
proof -
  have "trackerInv t3 (newEngagementTracker t1 t2 t3)"
    by (simp add: trackerInv_def newEngagementTracker_def)
  moreover have "sorted (t3 # concat (map readings evs) @ [now])"
    using assms(1) by (simp add: clockOk_def)
  ultimately obtain t where t: "t \<le> now" "trackerInv t (run (newEngagementTracker t1 t2 t3) evs)"
    using trackerInv_run by blast
  have base: "0 \<le> attentionScore (getMetrics (run (newEngagementTracker t1 t2 t3) evs) now)
    \<and> attentionScore (getMetrics (run (newEngagementTracker t1 t2 t3) evs) now) \<le> 100
    \<and> 0 \<le> engagementScore (getMetrics (run (newEngagementTracker t1 t2 t3) evs) now)
    \<and> engagementScore (getMetrics (run (newEngagementTracker t1 t2 t3) evs) now) \<le> 100"
    using t(2) t(1) by (rule getMetrics_range)
  let ?s = "aRun (newAdvTracker u1 u2 u3) aevs"
  have "aTrackerInv u3 (newAdvTracker u1 u2 u3)"
    by (simp add: aTrackerInv_def newAdvTracker_def)
  moreover have "sorted (u3 # concat (map aReadings aevs) @ [anow])"
    using assms(2) by (simp add: aClockOk_def)
  ultimately obtain u where u: "u \<le> anow" "aTrackerInv u ?s"
    using aTrackerInv_run by blast
  have att: "0 \<le> computedAttentionScore ?s et anow \<and> computedAttentionScore ?s et anow \<le> 100"
    using u(2) u(1) by (rule computedAttentionScore_range)
  have a1: "0 \<le> amAttentionScore (aGetMetrics ?s et anow)
      \<and> amAttentionScore (aGetMetrics ?s et anow) \<le> 100"
    using att js_round_range [of "computedAttentionScore ?s et anow"]
    by (simp add: aGetMetrics_scores)
  have a2: "amEngagementScore (aGetMetrics ?s et anow) \<le> 100"
    using computedEngagementScore_upper [of ?s et anow]
    by (simp add: aGetMetrics_scores js_round_upper)
  have a3: "0 \<le> audioEngagementScore ?s \<and> frustrationLevel ?s \<le> 100
      \<longrightarrow> 0 \<le> amEngagementScore (aGetMetrics ?s et anow)"
    using computedEngagementScore_lower [OF u(2) u(1), of et]
    by (simp add: aGetMetrics_scores js_round_nonneg)
  show ?thesis
    using base a1 a2 a3 by simp
qed

theorem C2_score_ranges_witness:
  "clockOk [1000, 1000, 1000]
     [TrackMouse 0 0 2500, TrackInteraction 2600, HandleBlur 3000, HandleFocus 4000] 5000
   \<and> aClockOk [1000, 1000, 1000]
     [ATrackMouse idleEyeTracker 0 0 2500 2500, UpdateAudioMetrics 80 3 200,
      UpdateEmotionalState 20 10, ATrackInteraction, AHandleBlur 3000, AHandleFocus 4000] 5000
   \<and> 0 \<le> audioEngagementScore (aRun (newAdvTracker 1000 1000 1000)
     [ATrackMouse idleEyeTracker 0 0 2500 2500, UpdateAudioMetrics 80 3 200,
      UpdateEmotionalState 20 10, ATrackInteraction, AHandleBlur 3000, AHandleFocus 4000])
   \<and> frustrationLevel (aRun (newAdvTracker 1000 1000 1000)
     [ATrackMouse idleEyeTracker 0 0 2500 2500, UpdateAudioMetrics 80 3 200,
      UpdateEmotionalState 20 10, ATrackInteraction, AHandleBlur 3000, AHandleFocus 4000]) \<le> 100
   \<and> 0 \<le> engagementScore (getMetrics (run (newEngagementTracker 1000 1000 1000)
     [TrackMouse 0 0 2500, TrackInteraction 2600, HandleBlur 3000, HandleFocus 4000]) 5000)
   \<and> 0 \<le> amEngagementScore (aGetMetrics (aRun (newAdvTracker 1000 1000 1000)
     [ATrackMouse idleEyeTracker 0 0 2500 2500, UpdateAudioMetrics 80 3 200,
      UpdateEmotionalState 20 10, ATrackInteraction, AHandleBlur 3000, AHandleFocus 4000])
       idleEyeTracker 5000)"
proof -
  have c1: "clockOk [1000, 1000, 1000]
     [TrackMouse 0 0 2500, TrackInteraction 2600, HandleBlur 3000, HandleFocus 4000] 5000"
    by (simp add: clockOk_def)
  have c2: "aClockOk [1000, 1000, 1000]
     [ATrackMouse idleEyeTracker 0 0 2500 2500, UpdateAudioMetrics 80 3 200,
      UpdateEmotionalState 20 10, ATrackInteraction, AHandleBlur 3000, AHandleFocus 4000] 5000"
    by (simp add: aClockOk_def)
  have h: "0 \<le> audioEngagementScore (aRun (newAdvTracker 1000 1000 1000)
     [ATrackMouse idleEyeTracker 0 0 2500 2500, UpdateAudioMetrics 80 3 200,
      UpdateEmotionalState 20 10, ATrackInteraction, AHandleBlur 3000, AHandleFocus 4000])
   \<and> frustrationLevel (aRun (newAdvTracker 1000 1000 1000)
     [ATrackMouse idleEyeTracker 0 0 2500 2500, UpdateAudioMetrics 80 3 200,
      UpdateEmotionalState 20 10, ATrackInteraction, AHandleBlur 3000, AHandleFocus 4000]) \<le> 100"
    by (simp add: aRun_def aTrackMouse_def takeSnapshot_def aMoveMouse_def updateAudioMetrics_def
        updateEmotionalState_def aTrackInteraction_def aHandleBlur_def aHandleFocus_def
        newAdvTracker_def Let_def)
  show ?thesis
    using c1 c2 h C2_score_ranges [OF c1 c2, of idleEyeTracker] by simp
qed

text \<open>
  Claim C2 as stated fails for the advanced tracker: a frustration level of 2000, or
  an audio engagement score of -1000, stored on a new tracker gives an engagement
  score of -150 one second later.
\<close>

theorem C2_negative_engagement_counterexample:
  "aClockOk [0, 0, 0] [UpdateEmotionalState 2000 0] 1000
   \<and> amEngagementScore (aGetMetrics (aRun (newAdvTracker 0 0 0) [UpdateEmotionalState 2000 0])
        idleEyeTracker 1000) = - 150
   \<and> aClockOk [0, 0, 0] [UpdateAudioMetrics (- 1000) 0 0] 1000
   \<and> amEngagementScore (aGetMetrics (aRun (newAdvTracker 0 0 0) [UpdateAudioMetrics (- 1000) 0 0])
        idleEyeTracker 1000) = - 150"
  by (simp add: aClockOk_def aRun_def updateEmotionalState_def updateAudioMetrics_def
      newAdvTracker_def aGetMetrics_def computedEngagementScore_def computedAttentionScore_def
      focusScore_def aCurrentFocusTime_def interactionRate_def mouseActivity_def js_round_def
      Let_def)

end
